theory Spec2Isabelle
  imports Complex_Main "HOL-Library.Sublist" "HOL-Library.FSet"
begin

section \<open>Strings\<close>

text \<open>
  A Python \<open>str\<close> is a sequence of code points. It is modelled as a \<open>string\<close> whose
  characters are the code points below 256 (every literal of \<open>app.py\<close> that the
  functions below use lies in that range); \<open>length\<close> then counts what \<open>len\<close> counts.
  Python's \<open>float\<close> values (clock readings, averages, ratios) are modelled as \<open>real\<close>.
\<close>

definition lower_char :: "char \<Rightarrow> char" where
  \<comment> \<open>\<open>str.lower\<close> on one code point below 256: A-Z and the Latin-1 capitals move by 32.\<close>
  "lower_char c =
     (let n = (of_char c :: nat)
      in if (65 \<le> n \<and> n \<le> 90) \<or> (192 \<le> n \<and> n \<le> 222 \<and> n \<noteq> 215)
         then char_of (n + 32) else c)"

definition lower :: "string \<Rightarrow> string" where
  "lower s = map lower_char s"

primrec is_in :: "string \<Rightarrow> string \<Rightarrow> bool" where
  \<comment> \<open>\<open>is_in p s\<close> is Python's \<open>p in s\<close> on strings: \<open>p\<close> occurs in \<open>s\<close> as a block.\<close>
  "is_in p [] = (p = [])"
| "is_in p (c # s) = (prefix p (c # s) \<or> is_in p s)"

primrec join :: "string \<Rightarrow> string list \<Rightarrow> string" where
  \<comment> \<open>\<open>sep.join(xs)\<close>\<close>
  "join sep [] = []"
| "join sep (x # xs) = (if xs = [] then x else x @ sep @ join sep xs)"

definition fmt :: "string option \<Rightarrow> string" where
  \<comment> \<open>what an f-string prints for a value that is a \<open>str\<close> or \<open>None\<close>\<close>
  "fmt v = (case v of None \<Rightarrow> ''None'' | Some s \<Rightarrow> s)"

section \<open>The persona and genre classifier (class \<open>MusicIntelligenceEngine\<close>)\<close>

record genre_analysis =
  mood :: string
  complexity :: int
  recommendations :: "string list"

text \<open>\<open>_get_artist_persona\<close>: the first pattern contained in the lowercased name wins;
  \<open>None\<close> when no pattern matches.\<close>

definition get_artist_persona :: "string \<Rightarrow> real \<Rightarrow> real \<Rightarrow> genre_analysis option" where
  \<open>get_artist_persona artist_lower avg_popularity explicit_ratio =
    (if is_in (''michael jackson'') artist_lower then
       Some \<lparr>mood = ''Legendary & Timeless'', complexity = 95,
          recommendations =
            [''The undisputed King of Pop who redefined music, dance, and entertainment forever'',
             ''Revolutionary artistry that transcended racial barriers and cultural boundaries worldwide'',
             ''Every beat, every move, every note is pure musical history in motion'']\<rparr>
     else if is_in (''taylor swift'') artist_lower then
       Some \<lparr>mood = ''Storytelling Mastermind'', complexity = 85,
          recommendations =
            [''Swift's songwriting genius transforms personal experiences into universal anthems'',
             ''From country roots to pop domination - a fearless evolution that redefined success'',
             ''Each album era represents a new chapter in the most compelling musical autobiography ever written'']\<rparr>
     else if is_in (''beyonc'' @ [CHR 0xC3] @ [CHR 0xA9]) artist_lower \<or> is_in (''beyonce'') artist_lower then
       Some \<lparr>mood = ''Empowering Excellence'', complexity = 90,
          recommendations =
            [''Queen B's vocal powerhouse delivery combined with fierce independence and artistic vision'',
             ''From Destiny's Child to solo reign - every performance is a masterclass in pure talent'',
             ''Beyonc'' @ [CHR 0xC3] @ [CHR 0xA9] @ '' doesn't just make music; she creates cultural movements and empowers generations'']\<rparr>
     else if is_in (''drake'') artist_lower then
       Some \<lparr>mood = ''Melodic Vulnerability'', complexity = 70,
          recommendations =
            [''The 6 God who popularized singing-rap and emotional transparency in hip-hop'',
             ''Drake's ability to be both tough and tender revolutionized what rap could express'',
             ''From Toronto to the world - every track feels like a personal conversation with greatness'']\<rparr>
     else if is_in (''kendrick lamar'') artist_lower then
       Some \<lparr>mood = ''Conscious Genius'', complexity = 95,
          recommendations =
            [''Kendrick's lyrical complexity and social consciousness define modern hip-hop excellence'',
             ''Each album is a conceptual masterpiece that challenges listeners and society alike'',
             ''The poet laureate of rap who proves hip-hop can be both street-smart and intellectually profound'']\<rparr>
     else if is_in (''kanye west'') artist_lower \<or> is_in (''ye '') artist_lower then
       Some \<lparr>mood = ''Innovative Disruption'', complexity = 88,
          recommendations =
            [''Yeezy's production genius and boundary-pushing artistry changed hip-hop forever'',
             ''Love him or hate him, Kanye's influence on music and culture is undeniable'',
             ''Every album era represents a complete reinvention of sound and artistic vision'']\<rparr>
     else if is_in (''yeat'') artist_lower then
       Some \<lparr>mood = ''Hypnotic Innovation'', complexity = 60,
          recommendations =
            [''Yeat's bell-laden beats and unique vocal style created a whole new wave in rap'',
             ''If you like the sound of success mixed with experimental trap, this is your artist'',
             ''The underground king who brought a fresh, addictive sound to mainstream attention'']\<rparr>
     else if is_in (''travis scott'') artist_lower then
       Some \<lparr>mood = ''Psychedelic Energy'', complexity = 75,
          recommendations =
            [''La Flame's atmospheric production creates immersive sonic experiences like no other'',
             ''Travis Scott concerts aren't just shows - they're transcendent musical journeys'',
             ''Auto-tuned vocals meet orchestral grandeur in the most epic way possible'']\<rparr>
     else if is_in (''the beatles'') artist_lower then
       Some \<lparr>mood = ''Revolutionary Harmony'', complexity = 100,
          recommendations =
            [''The Fab Four who invented modern pop music and changed the world forever'',
             ''Every song is a piece of musical DNA that influenced every artist who came after'',
             ''From 'Love Me Do' to 'Abbey Road' - the greatest musical journey in human history'']\<rparr>
     else if is_in (''queen'') artist_lower \<and> is_in (''freddie'') artist_lower then
       Some \<lparr>mood = ''Theatrical Majesty'', complexity = 90,
          recommendations =
            [''Freddie Mercury's operatic voice and Queen's genre-defying anthems are pure rock royalty'',
             ''Every song is a stadium-filling epic designed to make you feel invincible'',
             ''We Will Rock You, We Are The Champions - these aren't just songs, they're battle cries'']\<rparr>
     else if is_in (''led zeppelin'') artist_lower then
       Some \<lparr>mood = ''Mystical Power'', complexity = 85,
          recommendations =
            [''Zeppelin's heavy blues and mystical lyrics created the blueprint for hard rock'',
             ''Jimmy Page's guitar wizardry meets Robert Plant's banshee wail in perfect harmony'',
             ''Stairway to Heaven isn't just a song - it's a spiritual experience through sound'']\<rparr>
     else if is_in (''whitney houston'') artist_lower then
       Some \<lparr>mood = ''Vocal Perfection'', complexity = 95,
          recommendations =
            [''Whitney's voice was a force of nature that redefined what human vocals could achieve'',
             ''The gold standard for vocal excellence - every note was delivered with divine precision'',
             ''I Will Always Love You isn't just a cover - it's the definitive version that surpassed the original'']\<rparr>
     else if is_in (''stevie wonder'') artist_lower then
       Some \<lparr>mood = ''Soulful Innovation'', complexity = 90,
          recommendations =
            [''Stevie's musical genius spans soul, funk, pop, and R&B with unmatched creativity'',
             ''A one-man orchestra who plays every instrument and writes timeless classics'',
             ''Superstition, Sir Duke, Isn't She Lovely - each song is a masterpiece of joy and innovation'']\<rparr>
     else if is_in (''billie eilish'') artist_lower then
       Some \<lparr>mood = ''Dark Pop Innovation'', complexity = 70,
          recommendations =
            [''Billie's whispered vocals and dark aesthetics redefined what pop music could be'',
             ''A Gen Z icon who proves you don't need to be loud to make the biggest impact'',
             ''Bad Guy changed the game - minimalist production meets maximum artistic impact'']\<rparr>
     else if is_in (''the weeknd'') artist_lower then
       Some \<lparr>mood = ''Nocturnal Seduction'', complexity = 80,
          recommendations =
            [''Abel's dark R&B and cinematic production create the perfect soundtrack for midnight drives'',
             ''From mysterious mixtapes to Super Bowl headliner - the ultimate artistic evolution'',
             ''Blinding Lights and Can't Feel My Face prove he's master of both darkness and light'']\<rparr>
     else if is_in (''dua lipa'') artist_lower then
       Some \<lparr>mood = ''Disco Revival Queen'', complexity = 65,
          recommendations =
            [''Dua Lipa brought back disco-pop with modern sophistication and irresistible grooves'',
             ''Future Nostalgia wasn't just an album - it was a time machine to the dance floor'',
             ''Levitating, Don't Start Now - pure dancefloor euphoria with impeccable production'']\<rparr>
     else if is_in (''daft punk'') artist_lower then
       Some \<lparr>mood = ''Robotic Perfection'', complexity = 85,
          recommendations =
            [''The French robots who made electronic music cool and brought house to the masses'',
             ''Get Lucky, One More Time - timeless electronic anthems that transcend genres'',
             ''Their helmets hid their faces but revealed the future of music production'']\<rparr>
     else if is_in (''skrillex'') artist_lower then
       Some \<lparr>mood = ''Bass-Dropping Chaos'', complexity = 70,
          recommendations =
            [''Skrillex turned dubstep from underground noise into mainstream earthquake-inducing drops'',
             ''Scary Monsters brought the bass and changed electronic music forever'',
             ''When the beat drops, your soul ascends - this is organized musical chaos at its finest'']\<rparr>
     else if is_in (''johnny cash'') artist_lower then
       Some \<lparr>mood = ''Outlaw Authenticity'', complexity = 75,
          recommendations =
            [''The Man in Black whose deep voice and outlaw spirit defined authentic country music'',
             ''Johnny Cash's covers of modern songs proved that great music transcends time and genre'',
             ''Ring of Fire, Hurt - whether original or cover, Cash made every song his own'']\<rparr>
     else if is_in (''radiohead'') artist_lower then
       Some \<lparr>mood = ''Experimental Melancholy'', complexity = 95,
          recommendations =
            [''Radiohead's experimental genius challenges listeners while creating beautiful sonic landscapes'',
             ''OK Computer predicted our digital dystopia with haunting accuracy and gorgeous melodies'',
             ''Thom Yorke's falsetto paired with innovative production creates art that transcends music'']\<rparr>
     else if is_in (''nirvana'') artist_lower then
       Some \<lparr>mood = ''Grunge Authenticity'', complexity = 70,
          recommendations =
            [''Kurt Cobain's raw emotion and Nirvana's grunge revolution spoke for a generation'',
             ''Smells Like Teen Spirit wasn't just a hit - it was a generational battle cry'',
             ''The band that proved three chords and the truth could change the world'']\<rparr>
     else None)\<close>

text \<open>
  \<open>app.py\<close> defines \<open>_get_genre_based_analysis\<close> twice in the class body. The first
  definition (lines 414 to 567) is replaced by the second (lines 569 to 721) when the class
  is built, so every call reaches the second. Both are translated, the first under the
  name \<open>get_genre_based_analysis_shadowed\<close>.
\<close>

definition get_genre_based_analysis_shadowed :: "string \<Rightarrow> real \<Rightarrow> real \<Rightarrow> string option \<Rightarrow> genre_analysis" where
  \<open>get_genre_based_analysis_shadowed genre_str avg_popularity explicit_ratio artist_name =
    (if list_ex (\<lambda>g. is_in g genre_str) [''r&b'', ''rnb'', ''soul'', ''neo-soul''] then
       \<lparr>mood = ''Smooth & Soulful'', complexity = 70,
         recommendations =
           [fmt artist_name @ '' crafts emotionally rich R&B with sophisticated vocal arrangements'',
            ''Expect smooth grooves and intimate storytelling that defines modern soul music'',
            ''Perfect for late-night listening with emphasis on vocal prowess and melodic depth'']\<rparr>
     else if list_ex (\<lambda>g. is_in g genre_str) [''hip-hop'', ''rap'', ''trap'', ''drill''] then
       (if explicit_ratio > 7 / 10 then
         \<lparr>mood = ''Raw & Unfiltered'', complexity = 65,
           recommendations =
             [fmt artist_name @ '' delivers hard-hitting rap with uncompromising lyrical content'',
              ''Authentic street narratives with aggressive production and powerful delivery'',
              ''Not for the faint-hearted - expect intense themes and bold artistic expression'']\<rparr>
       else \<lparr>mood = ''Lyrical & Conscious'', complexity = 65,
           recommendations =
             [fmt artist_name @ '' represents conscious rap with thoughtful wordplay and social commentary'',
              ''Intelligent hip-hop that balances mainstream appeal with lyrical substance'',
              ''Family-friendly rap that proves you can be profound without profanity'']\<rparr>)
     else if list_ex (\<lambda>g. is_in g genre_str) [''rock'', ''metal'', ''punk'', ''grunge''] then
       (if is_in (''metal'') genre_str \<or> is_in (''punk'') genre_str then
         \<lparr>mood = ''Intense & Aggressive'', complexity = 75,
           recommendations =
             [fmt artist_name @ '' unleashes raw power through crushing riffs and aggressive vocals'',
              ''High-energy music that channels rebellion and emotional intensity'',
              ''Not background music - demands your full attention and respect'']\<rparr>
       else \<lparr>mood = ''Energetic & Anthemic'', complexity = 60,
           recommendations =
             [fmt artist_name @ '' delivers classic rock energy with memorable hooks and guitar-driven sound'',
              ''Stadium-worthy anthems that blend technical skill with mass appeal'',
              ''Perfect for road trips and moments when you need to feel invincible'']\<rparr>)
     else if list_ex (\<lambda>g. is_in g genre_str) [''pop'', ''dance-pop'', ''electropop''] then
       (if avg_popularity > 80 then
         \<lparr>mood = ''Infectious & Chart-Topping'', complexity = 35,
           recommendations =
             [fmt artist_name @ '' masters the art of irresistible pop hooks and mainstream appeal'',
              ''Expertly crafted singles designed to dominate charts and playlists worldwide'',
              ''The soundtrack to your best memories - instantly recognizable and eternally catchy'']\<rparr>
       else \<lparr>mood = ''Quirky & Alternative'', complexity = 50,
           recommendations =
             [fmt artist_name @ '' offers refreshing pop sensibilities with unique artistic vision'',
              ''Accessible yet distinctive - pop music for listeners who crave something different'',
              ''Hidden gems that deserve more recognition in the mainstream landscape'']\<rparr>)
     else if list_ex (\<lambda>g. is_in g genre_str) [''electronic'', ''edm'', ''techno'', ''house'', ''dubstep''] then
       \<lparr>mood = ''Euphoric & Atmospheric'', complexity = 55,
         recommendations =
           [fmt artist_name @ '' creates immersive electronic soundscapes perfect for both clubs and headphones'',
            ''Cutting-edge production with beats that make your pulse sync to the rhythm'',
            ''Digital artistry that transforms simple sounds into transcendent musical experiences'']\<rparr>
     else if list_ex (\<lambda>g. is_in g genre_str) [''jazz'', ''blues'', ''swing''] then
       \<lparr>mood = ''Sophisticated & Timeless'', complexity = 85,
         recommendations =
           [fmt artist_name @ '' upholds jazz tradition while pushing musical boundaries with technical excellence'',
            ''Complex harmonies and improvisation showcase decades of musical evolution'',
            ''For connoisseurs who appreciate the intersection of technical skill and emotional expression'']\<rparr>
     else if list_ex (\<lambda>g. is_in g genre_str) [''country'', ''folk'', ''americana''] then
       \<lparr>mood = ''Authentic & Storytelling'', complexity = 45,
         recommendations =
           [fmt artist_name @ '' weaves compelling narratives through authentic country musicianship'',
            ''Honest songwriting that captures the essence of human experience and rural life'',
            ''Traditional values meet modern production in music that speaks to the heart'']\<rparr>
     else if list_ex (\<lambda>g. is_in g genre_str) [''indie'', ''alternative'', ''art''] then
       \<lparr>mood = ''Creative & Unconventional'', complexity = 65,
         recommendations =
           [fmt artist_name @ '' challenges musical conventions with innovative indie artistry'',
            ''Experimental approach that prioritizes artistic integrity over commercial success'',
            ''For listeners who value creativity and authenticity above mainstream trends'']\<rparr>
     else if list_ex (\<lambda>g. is_in g genre_str) [''classical'', ''ambient'', ''new age'', ''instrumental''] then
       \<lparr>mood = ''Meditative & Cinematic'', complexity = 80,
         recommendations =
           [fmt artist_name @ '' creates expansive soundscapes that transport listeners to otherworldly realms'',
            ''Atmospheric compositions perfect for meditation, focus, and emotional reflection'',
            ''Instrumental mastery that speaks without words and heals without medicine'']\<rparr>
     else \<lparr>mood = ''Eclectic & Versatile'', complexity = 55,
         recommendations =
           [fmt artist_name @ '' defies easy categorization with a diverse and dynamic musical approach'',
            ''Genre-blending artistry that keeps listeners guessing and always engaged'',
            ''Musical chameleon who adapts styles while maintaining a distinctive artistic voice'']\<rparr>)\<close>

definition get_genre_based_analysis :: "string \<Rightarrow> real \<Rightarrow> real \<Rightarrow> string option \<Rightarrow> genre_analysis" where
  \<open>get_genre_based_analysis genre_str avg_popularity explicit_ratio artist_name =
    (if list_ex (\<lambda>g. is_in g genre_str) [''r&b'', ''rnb'', ''soul'', ''neo-soul''] then
       \<lparr>mood = ''Smooth & Soulful'', complexity = 70,
         recommendations =
           [fmt artist_name @ '' crafts emotionally rich R&B with sophisticated vocal arrangements'',
            ''Expect smooth grooves and intimate storytelling that defines modern soul music'',
            ''Perfect for late-night listening with emphasis on vocal prowess and melodic depth'']\<rparr>
     else if list_ex (\<lambda>g. is_in g genre_str) [''hip-hop'', ''rap'', ''trap'', ''drill''] then
       (if explicit_ratio > 7 / 10 then
         \<lparr>mood = ''Raw & Unfiltered'', complexity = 65,
           recommendations =
             [fmt artist_name @ '' delivers hard-hitting rap with uncompromising lyrical content'',
              ''Authentic street narratives with aggressive production and powerful delivery'',
              ''Not for the faint-hearted - expect intense themes and bold artistic expression'']\<rparr>
       else \<lparr>mood = ''Lyrical & Conscious'', complexity = 65,
           recommendations =
             [fmt artist_name @ '' represents conscious rap with thoughtful wordplay and social commentary'',
              ''Intelligent hip-hop that balances mainstream appeal with lyrical substance'',
              ''Family-friendly rap that proves you can be profound without profanity'']\<rparr>)
     else if list_ex (\<lambda>g. is_in g genre_str) [''rock'', ''metal'', ''punk'', ''grunge''] then
       (if is_in (''metal'') genre_str \<or> is_in (''punk'') genre_str then
         \<lparr>mood = ''Intense & Aggressive'', complexity = 75,
           recommendations =
             [fmt artist_name @ '' unleashes raw power through crushing riffs and aggressive vocals'',
              ''High-energy music that channels rebellion and emotional intensity'',
              ''Not background music - demands your full attention and respect'']\<rparr>
       else \<lparr>mood = ''Energetic & Anthemic'', complexity = 60,
           recommendations =
             [fmt artist_name @ '' delivers classic rock energy with memorable hooks and guitar-driven sound'',
              ''Stadium-worthy anthems that blend technical skill with mass appeal'',
              ''Perfect for road trips and moments when you need to feel invincible'']\<rparr>)
     else if list_ex (\<lambda>g. is_in g genre_str) [''pop'', ''dance-pop'', ''electropop''] then
       (if avg_popularity > 80 then
         \<lparr>mood = ''Infectious & Chart-Topping'', complexity = 35,
           recommendations =
             [fmt artist_name @ '' masters the art of irresistible pop hooks and mainstream appeal'',
              ''Expertly crafted singles designed to dominate charts and playlists worldwide'',
              ''The soundtrack to your best memories - instantly recognizable and eternally catchy'']\<rparr>
       else \<lparr>mood = ''Quirky & Alternative'', complexity = 50,
           recommendations =
             [fmt artist_name @ '' offers refreshing pop sensibilities with unique artistic vision'',
              ''Accessible yet distinctive - pop music for listeners who crave something different'',
              ''Hidden gems that deserve more recognition in the mainstream landscape'']\<rparr>)
     else if list_ex (\<lambda>g. is_in g genre_str) [''electronic'', ''edm'', ''techno'', ''house'', ''dubstep''] then
       \<lparr>mood = ''Euphoric & Atmospheric'', complexity = 55,
         recommendations =
           [fmt artist_name @ '' creates immersive electronic soundscapes perfect for both clubs and headphones'',
            ''Cutting-edge production with beats that make your pulse sync to the rhythm'',
            ''Digital artistry that transforms simple sounds into transcendent musical experiences'']\<rparr>
     else if list_ex (\<lambda>g. is_in g genre_str) [''jazz'', ''blues'', ''swing''] then
       \<lparr>mood = ''Sophisticated & Timeless'', complexity = 85,
         recommendations =
           [fmt artist_name @ '' upholds jazz tradition while pushing musical boundaries with technical excellence'',
            ''Complex harmonies and improvisation showcase decades of musical evolution'',
            ''For connoisseurs who appreciate the intersection of technical skill and emotional expression'']\<rparr>
     else if list_ex (\<lambda>g. is_in g genre_str) [''country'', ''folk'', ''americana''] then
       \<lparr>mood = ''Authentic & Storytelling'', complexity = 45,
         recommendations =
           [fmt artist_name @ '' weaves compelling narratives through authentic country musicianship'',
            ''Honest songwriting that captures the essence of human experience and rural life'',
            ''Traditional values meet modern production in music that speaks to the heart'']\<rparr>
     else if list_ex (\<lambda>g. is_in g genre_str) [''indie'', ''alternative'', ''art''] then
       \<lparr>mood = ''Creative & Unconventional'', complexity = 65,
         recommendations =
           [fmt artist_name @ '' challenges musical conventions with innovative indie artistry'',
            ''Experimental approach that prioritizes artistic integrity over commercial success'',
            ''For listeners who value creativity and authenticity above mainstream trends'']\<rparr>
     else if list_ex (\<lambda>g. is_in g genre_str) [''classical'', ''ambient'', ''new age'', ''instrumental''] then
       \<lparr>mood = ''Meditative & Cinematic'', complexity = 80,
         recommendations =
           [fmt artist_name @ '' creates expansive soundscapes that transport listeners to otherworldly realms'',
            ''Atmospheric compositions perfect for meditation, focus, and emotional reflection'',
            ''Instrumental mastery that speaks without words and heals without medicine'']\<rparr>
     else \<lparr>mood = ''Eclectic & Versatile'', complexity = 55,
         recommendations =
           [fmt artist_name @ '' defies easy categorization with a diverse and dynamic musical approach'',
            ''Genre-blending artistry that keeps listeners guessing and always engaged'',
            ''Musical chameleon who adapts styles while maintaining a distinctive artistic voice'']\<rparr>)\<close>

definition analyze_genre_characteristics ::
  "string \<Rightarrow> real \<Rightarrow> real \<Rightarrow> int list \<Rightarrow> string option \<Rightarrow> genre_analysis" where
  "analyze_genre_characteristics genre_str avg_popularity explicit_ratio durations artist_name =
     (let avg_duration_min =
            (if durations \<noteq> []
             then real_of_int (sum_list durations) / real (length durations) / 60000
             else 3.5);
          artist_lower =
            (case artist_name of None \<Rightarrow> [] | Some n \<Rightarrow> if n \<noteq> [] then lower n else [])
      in case get_artist_persona artist_lower avg_popularity explicit_ratio of
           Some personalized_analysis \<Rightarrow> personalized_analysis
         | None \<Rightarrow> get_genre_based_analysis genre_str avg_popularity explicit_ratio artist_name)"

section \<open>Aggregate statistics (\<open>analyze_audio_features\<close>)\<close>

text \<open>
  A track is the dictionary the handler passes in; a key that is missing or holds
  \<open>None\<close> is \<open>None\<close> here. An album carries the \<open>release_date\<close> key or not; the albums
  the search handler builds carry more fields, which the analysis does not read.

  Python computes the averages and the ratio in floating point, as the float nearest to
  the quotient of two integers. They are modelled as the exact quotients: rounding is
  monotone and the list has far fewer than \<open>2 ^ 40\<close> tracks (the search handler passes 20
  at most), so the classifier's comparisons with its thresholds come out the same.
  The two products whose integer part is taken, \<open>avg_popularity * 1.2\<close> and
  \<open>popularity * 1.3\<close>, are not modelled as exact: rounding the quotient and the product
  can move the integer part by one (the popularities 10, 10 and 15 give 13, the exact
  product gives 14). The float product is the parameter \<open>fmul\<close>: \<open>fmul x c\<close> is the
  float that Python computes for \<open>x * c\<close> when \<open>x\<close> is held as a float.
\<close>

record track =
  popularity :: "int option"
  duration_ms :: "int option"
  explicit :: "bool option"

record album =
  release_date :: "string option"

record audio_features =
  af_avg_popularity :: real
  af_avg_duration_ms :: real
  af_explicit_ratio :: real

record mood_profile =
  primary_mood :: string
  confidence :: real

record music_analysis =
  audio_features :: audio_features
  mood_profile :: mood_profile
  complexity_score :: int
  mainstream_appeal :: int
  trend :: string
  track_count :: nat
  analysis_timestamp :: string
  analysis_recommendations :: "string list"

definition trunc :: "real \<Rightarrow> int" where
  \<comment> \<open>\<open>int(x)\<close> on a float: rounds towards zero\<close>
  "trunc x = (if 0 \<le> x then \<lfloor>x\<rfloor> else \<lceil>x\<rceil>)"

definition mean :: "int list \<Rightarrow> real" where
  \<comment> \<open>\<open>sum(xs) / len(xs) if xs else 0\<close>\<close>
  "mean xs = (if xs \<noteq> [] then real_of_int (sum_list xs) / real (length xs) else 0)"

definition album_years :: "(string \<Rightarrow> int option) \<Rightarrow> 'a album_scheme list \<Rightarrow> int list" where
  \<comment> \<open>the loop over \<open>albums\<close>: the text before the first \<open>-\<close> of each release date, read by
     the builtin \<open>int\<close> (the parameter \<open>to_int\<close>, \<open>None\<close> where \<open>int\<close> raises); an album
     whose year cannot be read is skipped\<close>
  "album_years to_int albums =
     List.map_filter
       (\<lambda>a. to_int (takeWhile (\<lambda>c. c \<noteq> CHR ''-'')
                (case release_date a of None \<Rightarrow> [] | Some d \<Rightarrow> d)))
       albums"

definition analyze_audio_features ::
  "(string \<Rightarrow> int option) \<Rightarrow> (real \<Rightarrow> real \<Rightarrow> real) \<Rightarrow> string \<Rightarrow> track list \<Rightarrow> string list
     \<Rightarrow> 'a album_scheme list \<Rightarrow> string option \<Rightarrow> music_analysis option" where
  \<comment> \<open>The result \<open>None\<close> is the empty dictionary \<open>{}\<close> of the first \<open>return\<close>.
     \<open>now_iso\<close> is what \<open>datetime.now().isoformat()\<close> reads.\<close>
  "analyze_audio_features to_int fmul now_iso tracks genres albums artist_name =
     (if tracks = [] then None
      else
        let popularities = List.map_filter popularity tracks;
            durations = List.map_filter duration_ms tracks;
            explicit_count = length (filter (\<lambda>t. explicit t = Some True) tracks);
            total_tracks = length tracks;
            avg_popularity = mean popularities;
            avg_duration = mean durations;
            explicit_ratio =
              (if total_tracks \<noteq> 0 then real explicit_count / real total_tracks else 0);
            genre_str = lower (join '', '' genres);
            genre_analysis =
              analyze_genre_characteristics genre_str avg_popularity explicit_ratio durations
                artist_name;
            years = album_years to_int albums
        in Some \<lparr>audio_features =
                   \<lparr>af_avg_popularity = avg_popularity, af_avg_duration_ms = avg_duration,
                    af_explicit_ratio = explicit_ratio\<rparr>,
                 mood_profile = \<lparr>primary_mood = mood genre_analysis, confidence = 0.8\<rparr>,
                 complexity_score = complexity genre_analysis,
                 mainstream_appeal = min (trunc (fmul avg_popularity 1.2)) 100,
                 trend =
                   (if years \<noteq> [] \<and> Max (set years) - Min (set years) > 5
                    then ''Evolving'' else ''Stable''),
                 track_count = total_tracks,
                 analysis_timestamp = now_iso,
                 analysis_recommendations = recommendations genre_analysis\<rparr>)"

section \<open>Discovery insights (\<open>generate_discovery_insights\<close>)\<close>

text \<open>
  \<open>_calculate_discoverability\<close>. \<open>randint a b\<close> is the value \<open>random.randint(a, b)\<close>
  returns in this call; the library promises \<open>a \<le> randint a b \<le> b\<close>. The statements after
  the \<open>return\<close> of line 898 are never run and are left out.
\<close>

definition calculate_discoverability ::
  "(real \<Rightarrow> real \<Rightarrow> real) \<Rightarrow> (int \<Rightarrow> int \<Rightarrow> int) \<Rightarrow> music_analysis option \<Rightarrow> string list \<Rightarrow> int"
  where
  "calculate_discoverability fmul randint audio_analysis genres =
     (case audio_analysis of
        None \<Rightarrow> randint 60 90
      | Some a \<Rightarrow>
          let base_score = (50::int);
              popularity_a = af_avg_popularity (audio_features a);
              discovery_score = min (trunc (fmul popularity_a 1.3)) 95;
              discovery_score = discovery_score + randint (- 10) 15
          in max (min discovery_score 100) 30)"

text \<open>
  The other three helpers look for the keys \<open>danceability\<close>, \<open>energy\<close>, \<open>valence\<close>,
  \<open>instrumentalness\<close> and \<open>acousticness\<close> in \<open>audio_analysis['audio_features']\<close>. That
  dictionary holds the three statistics only, so each \<open>get\<close> yields its default; the
  defaults are exact in floating point and so are the sums and products below.
\<close>

definition calculate_mainstream_appeal :: "music_analysis option \<Rightarrow> real" where
  "calculate_mainstream_appeal audio_analysis =
     (case audio_analysis of
        None \<Rightarrow> 50
      | Some a \<Rightarrow>
          let danceability = (0.5::real);
              energy = (0.5::real);
              valence = (0.5::real);
              appeal_score = danceability * 30 + energy * 25 + valence * 25 + 20
          in min (max (appeal_score * 100) 0) 100)"

definition calculate_uniqueness :: "music_analysis option \<Rightarrow> string list \<Rightarrow> int" where
  "calculate_uniqueness audio_analysis genres =
     (let uniqueness = (50::int);
          uniqueness =
            (case audio_analysis of
               None \<Rightarrow> uniqueness
             | Some a \<Rightarrow>
                 let instrumentalness = (0::int);
                     uniqueness = uniqueness + instrumentalness * 25
                 in if list_ex (\<lambda>genre. list_ex (\<lambda>unique. is_in unique (lower genre))
                                         [''experimental'', ''avant-garde'', ''noise'', ''drone''])
                          genres
                    then uniqueness + 20 else uniqueness)
      in min (max uniqueness 0) 100)"

definition generate_recommendations :: "music_analysis option \<Rightarrow> string list \<Rightarrow> string list" where
  \<open>generate_recommendations audio_analysis genres =
     (case audio_analysis of
        None \<Rightarrow> [''Explore more music to get personalized recommendations!'']
      | Some a \<Rightarrow>
          let energy = (0.5::real);
              valence = (0.5::real);
              danceability = (0.5::real);
              acousticness = (0::real);
              recs = [];
              recs = (if energy > 0.7 \<and> danceability > 0.7
                      then recs @ [''Perfect for workout playlists and dance parties!'']
                      else recs);
              recs = (if valence > 0.8
                      then recs @ [''Great mood-boosting music for positive vibes!'']
                      else recs);
              recs = (if energy < 0.3 \<and> valence < 0.5
                      then recs @ [''Ideal for introspective moments and late-night listening.'']
                      else recs);
              recs = (if acousticness > 0.6
                      then recs @ [''Perfect acoustic sound for intimate settings.'']
                      else recs)
          in if recs = []
             then recs @ [''Versatile music suitable for various listening contexts.'']
             else recs)\<close>

record discovery_insights =
  discoverability_score :: int
  genre_diversity :: nat
  insights_mainstream_appeal :: real
  uniqueness_factor :: int
  insights_recommendations :: "string list"

definition generate_discovery_insights ::
  "(real \<Rightarrow> real \<Rightarrow> real) \<Rightarrow> (int \<Rightarrow> int \<Rightarrow> int) \<Rightarrow> string \<Rightarrow> string list
     \<Rightarrow> music_analysis option \<Rightarrow> discovery_insights" where
  "generate_discovery_insights fmul randint artist_name genres audio_analysis =
     \<lparr>discoverability_score = calculate_discoverability fmul randint audio_analysis genres,
      genre_diversity = (if genres \<noteq> [] then card (set genres) else 0),
      insights_mainstream_appeal = calculate_mainstream_appeal audio_analysis,
      uniqueness_factor = calculate_uniqueness audio_analysis genres,
      insights_recommendations = generate_recommendations audio_analysis genres\<rparr>"

section \<open>The artist title (\<open>get_artist_title\<close>)\<close>

definition artist_titles :: "(string \<times> string) list" where
  \<comment> \<open>the dictionary \<open>artist_titles\<close>, in the order in which \<open>items()\<close> yields it\<close>
  \<open>artist_titles =
     [(''michael jackson'', ''The King of Pop''),
      (''elvis presley'', ''The King of Rock and Roll''),
      (''taylor swift'', ''The Songwriting Mastermind''),
      (''beyonc'' @ [CHR 0xC3] @ [CHR 0xA9], ''Queen B''),
      (''beyonce'', ''Queen B''),
      (''drake'', ''The 6 God''),
      (''kendrick lamar'', ''The Rap Genius''),
      (''kanye west'', ''Yeezy''),
      (''ye'', ''Yeezy''),
      (''yeat'', ''The Bell King''),
      (''travis scott'', ''La Flame''),
      (''the beatles'', ''The Fab Four''),
      (''queen'', ''Rock Royalty''),
      (''led zeppelin'', ''The Masters of Hard Rock''),
      (''whitney houston'', ''The Voice''),
      (''stevie wonder'', ''The Genius''),
      (''billie eilish'', ''The Dark Pop Princess''),
      (''the weeknd'', ''The Nocturnal King''),
      (''dua lipa'', ''The Disco Revival Queen''),
      (''daft punk'', ''The Robot Legends''),
      (''skrillex'', ''The Bass Drop King''),
      (''johnny cash'', ''The Man in Black''),
      (''radiohead'', ''The Experimental Masters''),
      (''nirvana'', ''The Grunge Pioneers''),
      (''adele'', ''The Soul Powerhouse''),
      (''bruno mars'', ''The Showman''),
      (''ed sheeran'', ''The Loop Pedal Virtuoso''),
      (''eminem'', ''Slim Shady''),
      (''jay-z'', ''HOV''),
      (''tupac'', ''The Prophet''),
      (''biggie'', ''The Notorious B.I.G.''),
      (''prince'', ''The Purple One''),
      (''madonna'', ''The Queen of Pop''),
      (''bob dylan'', ''The Voice of a Generation''),
      (''aretha franklin'', ''The Queen of Soul''),
      (''marvin gaye'', ''The Prince of Soul''),
      (''frank sinatra'', ''Ol' Blue Eyes''),
      (''david bowie'', ''The Starman''),
      (''jimi hendrix'', ''The Guitar God''),
      (''bob marley'', ''The Reggae Legend''),
      (''john lennon'', ''The Dreamer''),
      (''freddie mercury'', ''The Showman Supreme'')]\<close>

definition get_artist_title :: "string \<Rightarrow> string list \<Rightarrow> string" where
  \<open>get_artist_title artist_name genres =
     (let artist_lower = (if artist_name \<noteq> [] then lower artist_name else [])
      in case find (\<lambda>(artist_key, title). is_in artist_key artist_lower) artist_titles of
           Some (artist_key, title) \<Rightarrow> title
         | None \<Rightarrow>
             (case genres of
                [] \<Rightarrow> ''Musical Artist''
              | first_genre # _ \<Rightarrow>
                  let primary_genre = lower first_genre
                  in if is_in ''pop'' primary_genre then ''Pop Sensation''
                     else if is_in ''rap'' primary_genre \<or> is_in ''hip-hop'' primary_genre
                       then ''Hip-Hop Artist''
                     else if is_in ''rock'' primary_genre then ''Rock Legend''
                     else if is_in ''r&b'' primary_genre \<or> is_in ''soul'' primary_genre
                       then ''R&B Star''
                     else if is_in ''country'' primary_genre then ''Country Artist''
                     else if is_in ''electronic'' primary_genre \<or> is_in ''edm'' primary_genre
                       then ''Electronic Producer''
                     else if is_in ''jazz'' primary_genre then ''Jazz Virtuoso''
                     else if is_in ''indie'' primary_genre \<or> is_in ''alternative'' primary_genre
                       then ''Indie Artist''
                     else ''Musical Artist''))\<close>

section \<open>JSON bodies\<close>

text \<open>
  What \<open>request.get_json()\<close> gives a handler. The call raises when the request has no
  readable JSON body; the handler's \<open>except Exception\<close> then answers 500. A body that
  is false in Python (\<open>null\<close>, \<open>false\<close>, \<open>0\<close>, an empty string, array or object) fails the
  test \<open>if not data\<close>. Any other body that is not an object has no method \<open>get\<close>, so the
  first \<open>data.get\<close> raises. An object is given by the fields the handler reads.
\<close>

datatype 'r payload =
    No_Json
  | Falsy_Json
  | Other_Json
  | Object 'r

text \<open>
  The value of a field that a handler tests, compares or hashes: \<open>null\<close> (also for a key
  that is missing), an integer, a string or an array. On these values Python's \<open>==\<close> is
  equality. Booleans, fractions and objects are left out: a boolean behaves as the
  integer it equals, an object as the array of its keys (neither can be hashed, both
  are iterated). Names, dates and
  images, which the handlers only test for truth, store and print, are strings or
  missing.
\<close>

datatype json =
    JNull
  | JNum int
  | JStr string
  | JArr "json list"

definition truthy_json :: "json \<Rightarrow> bool" where
  "truthy_json v =
     (case v of JNull \<Rightarrow> False | JNum n \<Rightarrow> n \<noteq> 0 | JStr s \<Rightarrow> s \<noteq> [] | JArr xs \<Rightarrow> xs \<noteq> [])"

definition hashable :: "json \<Rightarrow> bool" where
  \<comment> \<open>a list cannot be a member of a \<open>set\<close>: \<open>add\<close> and \<open>in\<close> raise \<open>TypeError\<close>\<close>
  "hashable v = (case v of JArr xs \<Rightarrow> False | _ \<Rightarrow> True)"

definition truthy :: "string option \<Rightarrow> bool" where
  \<comment> \<open>Python's truth value of a string field: \<open>None\<close> and the empty string are false\<close>
  "truthy v = (case v of None \<Rightarrow> False | Some s \<Rightarrow> s \<noteq> [])"

definition text_of :: "string option \<Rightarrow> string" where
  \<comment> \<open>the string a field holds, once the handler has found the field truthy\<close>
  "text_of v = (case v of None \<Rightarrow> [] | Some s \<Rightarrow> s)"

section \<open>Module state\<close>

text \<open>
  The module-level stores. A \<open>defaultdict\<close> is a map whose missing keys read as the
  default (\<open>[]\<close> or \<open>0\<close>). The set \<open>liked_artists\<close> is finite.
\<close>

record liked_artist =
  artist_id :: json
  artist_name :: string
  genres :: json
  image :: "string option"
  liked_at :: string

record saved_album =
  album_id :: "string option"
  album_name :: "string option"
  album_artist_name :: "string option"
  album_artist_id :: "string option"
  album_release_date :: "string option"
  album_image :: "string option"
  total_tracks :: int
  saved_at :: string

record history_event =
  event_artist_id :: json
  event_artist_name :: string
  event_genres :: "json option"
  event_timestamp :: string
  event_action :: string

record user_preferences =
  liked_artists :: "json fset"
  liked_artists_data :: "liked_artist list"
  saved_albums :: "saved_album list"
  genre_preferences :: "string \<rightharpoonup> nat"
  listening_history :: "history_event list"

record 'e globals =
  rate_limit_tracker :: "string \<rightharpoonup> real list"
  search_analytics :: "string \<rightharpoonup> nat"
  music_insights_cache :: "string \<rightharpoonup> 'e"
  user_prefs :: user_preferences

definition initial_preferences :: user_preferences where
  "initial_preferences =
     \<lparr>liked_artists = {||}, liked_artists_data = [], saved_albums = [],
      genre_preferences = Map.empty, listening_history = []\<rparr>"

definition initial_globals :: "'e globals" where
  "initial_globals =
     \<lparr>rate_limit_tracker = Map.empty, search_analytics = Map.empty,
      music_insights_cache = Map.empty, user_prefs = initial_preferences\<rparr>"

definition timestamps_of :: "(string \<rightharpoonup> real list) \<Rightarrow> string \<Rightarrow> real list" where
  \<comment> \<open>reading \<open>rate_limit_tracker[client_ip]\<close>\<close>
  "timestamps_of tracker client_ip = (case tracker client_ip of None \<Rightarrow> [] | Some ts \<Rightarrow> ts)"

definition increment :: "(string \<rightharpoonup> nat) \<Rightarrow> string \<Rightarrow> (string \<rightharpoonup> nat)" where
  \<comment> \<open>\<open>counter[key] += 1\<close> on a \<open>defaultdict(int)\<close>\<close>
  "increment counter key = counter(key \<mapsto> (case counter key of None \<Rightarrow> 1 | Some n \<Rightarrow> n + 1))"

section \<open>Replies\<close>

text \<open>
  What a handler returns: the status code and the JSON body, by the shapes the handlers
  build: \<open>{'error': e}\<close>, \<open>{'success': False, 'error': e, 'message': m}\<close> (the message may be
  missing) and \<open>{'success': True, 'message': m, 'total_...': n}\<close> (the total may be missing).
\<close>

datatype body =
    Error string
  | Failure string "string option"
  | Done string "nat option"

type_synonym reply = "nat \<times> body"

section \<open>The rate limiter (\<open>rate_limit\<close>)\<close>

text \<open>
  The decorator wraps a handler \<open>f\<close>. A call is answered by the 429 reply with its
  \<open>retry_after\<close>, or by the handler; \<open>rate_limit_tracker[client_ip][0]\<close> on an empty list
  raises \<open>IndexError\<close>, which nothing in the decorator catches.
\<close>

datatype 'r gated =
    Rejected real
  | Index_Error
  | Passed 'r

definition rate_limit ::
  "int \<Rightarrow> real \<Rightarrow> ('e globals \<Rightarrow> 'e globals \<times> 'r) \<Rightarrow> string \<Rightarrow> real \<Rightarrow> 'e globals
     \<Rightarrow> 'e globals \<times> 'r gated" where
  "rate_limit max_requests window f client_ip now g =
     (let kept = filter (\<lambda>timestamp. now - timestamp < window)
                   (timestamps_of (rate_limit_tracker g) client_ip);
          g1 = g\<lparr>rate_limit_tracker := (rate_limit_tracker g)(client_ip \<mapsto> kept)\<rparr>
      in if max_requests \<le> int (length kept) then
           (case kept of
              [] \<Rightarrow> (g1, Index_Error)
            | first # _ \<Rightarrow> (g1, Rejected (window - (now - first))))
         else
           let g2 = g1\<lparr>rate_limit_tracker := (rate_limit_tracker g1)(client_ip \<mapsto> kept @ [now])\<rparr>
           in (fst (f g2), Passed (snd (f g2))))"

text \<open>A client's requests at the clock readings \<open>ts\<close>, in that order, to an endpoint
  whose handler changes nothing; the answers come back in the same order.\<close>

definition idle :: "'e globals \<Rightarrow> 'e globals \<times> unit" where
  "idle g = (g, ())"

fun requests ::
  "int \<Rightarrow> real \<Rightarrow> string \<Rightarrow> real list \<Rightarrow> 'e globals \<Rightarrow> 'e globals \<times> unit gated list" where
  "requests max_requests window client_ip [] g = (g, [])"
| "requests max_requests window client_ip (now # ts) g =
     (let (g1, r) = rate_limit max_requests window idle client_ip now g;
          (g2, rs) = requests max_requests window client_ip ts g1
      in (g2, r # rs))"

section \<open>The collection store\<close>

record heart_request =
  heart_artist_id :: json
  heart_artist_name :: "string option"
  heart_genres :: "json option"
  heart_image :: "string option"

record unlike_request =
  unlike_artist_id :: json
  unlike_artist_name :: "string option"

record save_request =
  save_album_id :: "string option"
  save_album_name :: "string option"
  save_artist_name :: "string option"
  save_artist_id :: "string option"
  save_release_date :: "string option"
  save_image :: "string option"
  save_total_tracks :: "int option"

record unsave_request =
  unsave_album_id :: "string option"

text \<open>
  Each handler takes the JSON body \<open>data\<close>, the clock reading \<open>now_iso\<close> where it stamps a
  record, and \<open>user_preferences\<close>; it returns the updated store and the reply. A statement
  that raises ends the handler in its \<open>except Exception\<close> branch (status 500); what the
  handler wrote before stays written.

  The loop \<open>for genre in genres\<close> of \<open>heart_artist\<close>: \<open>genres\<close> is the array of the body
  (the empty list when the key is missing); a string is iterated character by character;
  \<open>null\<close> and a number cannot be iterated. Each element must have the method \<open>lower\<close>,
  so the loop raises at the first element that is not a string. The result is the counts
  written so far and whether the loop raised.
\<close>

fun genre_loop :: "json list \<Rightarrow> (string \<rightharpoonup> nat) \<Rightarrow> (string \<rightharpoonup> nat) \<times> bool" where
  "genre_loop [] prefs = (prefs, False)"
| "genre_loop (genre # rest) prefs =
     (case genre of
        JStr s \<Rightarrow> genre_loop rest (increment prefs (lower s))
      | _ \<Rightarrow> (prefs, True))"

definition count_genres :: "json \<Rightarrow> (string \<rightharpoonup> nat) \<Rightarrow> (string \<rightharpoonup> nat) \<times> bool" where
  "count_genres genres_value prefs =
     (case genres_value of
        JArr xs \<Rightarrow> genre_loop xs prefs
      | JStr s \<Rightarrow> genre_loop (map (\<lambda>c. JStr [c]) s) prefs
      | _ \<Rightarrow> (prefs, True))"

definition heart_artist ::
  "heart_request payload \<Rightarrow> string \<Rightarrow> user_preferences \<Rightarrow> user_preferences \<times> reply" where
  \<open>heart_artist data now_iso p =
     (case data of
        No_Json \<Rightarrow> (p, (500, Error ''Failed to save artist''))
      | Falsy_Json \<Rightarrow> (p, (400, Error ''Invalid request data''))
      | Other_Json \<Rightarrow> (p, (500, Error ''Failed to save artist''))
      | Object d \<Rightarrow>
          if truthy_json (heart_artist_id d) \<and> truthy (heart_artist_name d) then
            let aid = heart_artist_id d;
                name = text_of (heart_artist_name d);
                genres_value = (case heart_genres d of None \<Rightarrow> JArr [] | Some v \<Rightarrow> v);
                existing = find (\<lambda>a. artist_id a = aid) (liked_artists_data p)
            in (case existing of
                  Some _ \<Rightarrow>
                    (p, (409, Failure ''Artist already liked''
                                (Some ''This artist is already in your favorites'')))
                | None \<Rightarrow>
                    let artist_data =
                          \<lparr>artist_id = aid, artist_name = name, genres = genres_value,
                           image = heart_image d, liked_at = now_iso\<rparr>;
                        p1 = p\<lparr>liked_artists_data := liked_artists_data p @ [artist_data]\<rparr>
                    in if hashable aid then
                         let p2 = p1\<lparr>liked_artists := finsert aid (liked_artists p1)\<rparr>;
                             counted = count_genres genres_value (genre_preferences p2);
                             p3 = p2\<lparr>genre_preferences := fst counted\<rparr>
                         in if snd counted then (p3, (500, Error ''Failed to save artist''))
                            else
                              let p4 = p3\<lparr>listening_history :=
                                            listening_history p3 @
                                              [\<lparr>event_artist_id = aid, event_artist_name = name,
                                                event_genres = Some genres_value,
                                                event_timestamp = now_iso,
                                                event_action = ''liked''\<rparr>]\<rparr>
                              in (p4, (200, Done (name @ '' added to favorites'')
                                              (Some (fcard (liked_artists p4)))))
                       else (p1, (500, Error ''Failed to save artist'')))
          else (p, (400, Error ''Artist ID and name required'')))\<close>

definition save_album ::
  "save_request payload \<Rightarrow> string \<Rightarrow> user_preferences \<Rightarrow> user_preferences \<times> reply" where
  \<open>save_album data now_iso p =
     (case data of
        No_Json \<Rightarrow> (p, (500, Error ''Failed to save album''))
      | Falsy_Json \<Rightarrow> (p, (400, Error ''Invalid request data''))
      | Other_Json \<Rightarrow> (p, (500, Error ''Failed to save album''))
      | Object d \<Rightarrow>
          let album_data =
                \<lparr>album_id = save_album_id d, album_name = save_album_name d,
                 album_artist_name = save_artist_name d, album_artist_id = save_artist_id d,
                 album_release_date = save_release_date d, album_image = save_image d,
                 total_tracks = (case save_total_tracks d of None \<Rightarrow> 0 | Some n \<Rightarrow> n),
                 saved_at = now_iso\<rparr>
          in if truthy (album_id album_data) \<and> truthy (album_name album_data) then
               (case find (\<lambda>a. album_id a = album_id album_data) (saved_albums p) of
                  Some _ \<Rightarrow>
                    (p, (409, Failure ''Album already saved''
                                (Some ''This album is already in your collection'')))
                | None \<Rightarrow>
                    let p1 = p\<lparr>saved_albums := saved_albums p @ [album_data]\<rparr>
                    in (p1, (200, Done (''Album '' @ [CHR 0x22] @ text_of (album_name album_data)
                                          @ [CHR 0x22] @ '' saved to your collection'')
                                    (Some (length (saved_albums p1))))))
             else (p, (400, Error ''Album ID and name required'')))\<close>

definition unsave_album ::
  "unsave_request payload \<Rightarrow> user_preferences \<Rightarrow> user_preferences \<times> reply" where
  \<open>unsave_album data p =
     (case data of
        No_Json \<Rightarrow> (p, (500, Error ''Failed to unsave album''))
      | Falsy_Json \<Rightarrow> (p, (400, Error ''Invalid request data''))
      | Other_Json \<Rightarrow> (p, (500, Error ''Failed to unsave album''))
      | Object d \<Rightarrow>
          if truthy (unsave_album_id d) then
            let original_count = length (saved_albums p);
                p1 = p\<lparr>saved_albums :=
                         filter (\<lambda>album. album_id album \<noteq> unsave_album_id d) (saved_albums p)\<rparr>
            in if length (saved_albums p1) = original_count then
                 (p1, (404, Failure ''Album not found in saved collection'' None))
               else (p1, (200, Done ''Album removed from your collection''
                                 (Some (length (saved_albums p1)))))
          else (p, (400, Error ''Album ID required'')))\<close>

definition unlike_artist ::
  "unlike_request payload \<Rightarrow> string \<Rightarrow> user_preferences \<Rightarrow> user_preferences \<times> reply" where
  \<open>unlike_artist data now_iso p =
     (case data of
        No_Json \<Rightarrow> (p, (500, Error ''Failed to unlike artist''))
      | Falsy_Json \<Rightarrow> (p, (400, Error ''Invalid request data''))
      | Other_Json \<Rightarrow> (p, (500, Error ''Failed to unlike artist''))
      | Object d \<Rightarrow>
          let name = (case unlike_artist_name d of None \<Rightarrow> ''Unknown Artist'' | Some n \<Rightarrow> n)
          in if truthy_json (unlike_artist_id d) then
               let aid = unlike_artist_id d;
                   original_count = length (liked_artists_data p);
                   p1 = p\<lparr>liked_artists_data :=
                            filter (\<lambda>artist. artist_id artist \<noteq> aid) (liked_artists_data p)\<rparr>
               in if hashable aid then
                    let p2 = (if aid |\<in>| liked_artists p1
                              then p1\<lparr>liked_artists := liked_artists p1 |-| {|aid|}\<rparr> else p1)
                    in if length (liked_artists_data p2) = original_count then
                         (p2, (404, Failure ''Artist not found in liked collection'' None))
                       else
                         let p3 = p2\<lparr>listening_history :=
                                        listening_history p2 @
                                          [\<lparr>event_artist_id = aid, event_artist_name = name,
                                            event_genres = None, event_timestamp = now_iso,
                                            event_action = ''unliked''\<rparr>]\<rparr>
                         in (p3, (200, Done (name @ '' removed from favorites'')
                                         (Some (fcard (liked_artists p3)))))
                  else (p1, (500, Error ''Failed to unlike artist''))
             else (p, (400, Error ''Artist ID required'')))\<close>

definition clear_collection :: "user_preferences \<Rightarrow> user_preferences \<times> reply" where
  "clear_collection p =
     (p\<lparr>liked_artists := {||}, liked_artists_data := [], saved_albums := [],
        genre_preferences := Map.empty, listening_history := []\<rparr>,
      (200, Done ''Collection cleared successfully'' None))"

text \<open>The calls a client can make on the collection store, and a run of them from the
  store the module starts with.\<close>

datatype operation =
    Heart "heart_request payload" string
  | Unlike "unlike_request payload" string
  | Save "save_request payload" string
  | Unsave "unsave_request payload"
  | Clear

fun perform :: "operation \<Rightarrow> user_preferences \<Rightarrow> user_preferences" where
  "perform (Heart data now_iso) p = fst (heart_artist data now_iso p)"
| "perform (Unlike data now_iso) p = fst (unlike_artist data now_iso p)"
| "perform (Save data now_iso) p = fst (save_album data now_iso p)"
| "perform (Unsave data) p = fst (unsave_album data p)"
| "perform Clear p = fst (clear_collection p)"

definition run :: "operation list \<Rightarrow> user_preferences" where
  "run ops = fold perform ops initial_preferences"

section \<open>The search handler (\<open>search_albums\<close>)\<close>

text \<open>
  The catalog is outside the program. A call to it returns a value or raises; the
  handler tells \<open>SpotifyException\<close> from every other exception. The records are the
  fields the handler reads from what the catalog returns: \<open>sp.search\<close> gives the list
  \<open>search_results['artists']['items']\<close>, \<open>sp.artist_albums\<close> the list \<open>items\<close>,
  \<open>sp.artist_top_tracks\<close> the list \<open>tracks\<close>, and \<open>sp.audio_features([id])\<close> the first
  element of its result (\<open>None\<close> when the result is empty or holds \<open>None\<close>), of which the
  analysis reads what it reads of a track. Images are given by their URLs.
\<close>

datatype 'a outcome =
    Returns 'a
  | Raises_SpotifyException
  | Raises_Exception

record catalog_artist =
  found_id :: string
  found_name :: string
  found_genres :: "string list"
  found_followers :: int
  found_popularity :: int
  found_images :: "string list"

record catalog_album =
  item_id :: string
  item_name :: string
  item_artists :: "string list"
  item_images :: "string list"
  item_release_date :: string
  item_total_tracks :: int
  item_spotify_url :: string
  item_album_type :: "string option"

record catalog_track =
  track_id :: "string option"
  track_metadata :: track

record catalog =
  sp_search :: "string \<Rightarrow> catalog_artist list outcome"
  sp_artist_albums :: "string \<Rightarrow> catalog_album list outcome"
  sp_artist_top_tracks :: "string \<Rightarrow> catalog_track list outcome"
  sp_audio_features :: "string \<Rightarrow> track option outcome"

text \<open>
  What the handler reads from outside besides the catalog: the builtin \<open>int\<close>, the float
  product, the random source, \<open>hashlib.md5(...).hexdigest()\<close> and the four readings of
  the clock (in the analysis, for the date in the cache key, for the cache entry and
  for the reply).
\<close>

record environment =
  env_to_int :: "string \<Rightarrow> int option"
  env_fmul :: "real \<Rightarrow> real \<Rightarrow> real"
  env_randint :: "int \<Rightarrow> int \<Rightarrow> int"
  env_md5 :: "string \<Rightarrow> string"
  env_analysis_now :: string
  env_today :: string
  env_cache_now :: string
  env_reply_now :: string

record found_album = album +
  shown_id :: string
  shown_name :: string
  shown_artist :: string
  shown_image :: "string option"
  shown_total_tracks :: int
  shown_spotify_url :: string
  shown_album_type :: string

record artist_block =
  block_id :: string
  block_name :: string
  block_title :: string
  block_genres :: "string list"
  block_primary_genre :: string
  block_followers :: int
  block_popularity :: int
  block_image :: "string option"

record search_result =
  result_artist :: artist_block
  result_albums :: "found_album list"
  result_music_analysis :: "music_analysis option"
  result_discovery_insights :: discovery_insights
  result_total :: nat
  result_timestamp :: string

record cache_entry =
  cached_analysis :: "music_analysis option"
  cached_insights :: discovery_insights
  cached_timestamp :: string

datatype search_body =
    Search_Error string
  | Search_Result search_result

record search_request =
  request_query :: "json option"

definition is_space :: "char \<Rightarrow> bool" where
  \<comment> \<open>the code points below 256 that \<open>str.strip\<close> removes\<close>
  "is_space c = ((of_char c :: nat) \<in> {9, 10, 11, 12, 13, 28, 29, 30, 31, 32, 133, 160})"

definition strip :: "string \<Rightarrow> string" where
  "strip s = rev (dropWhile is_space (rev (dropWhile is_space s)))"

definition query_text :: "json option \<Rightarrow> string option" where
  \<comment> \<open>\<open>data.get('query', '')\<close> when it is a string; \<open>None\<close> when the value has no method
     \<open>strip\<close>, so that \<open>.strip()\<close> raises\<close>
  "query_text v =
     (case v of None \<Rightarrow> Some [] | Some (JStr s) \<Rightarrow> Some s | Some _ \<Rightarrow> None)"

fun display_albums :: "catalog_album list \<Rightarrow> found_album list option" where
  \<comment> \<open>the loop that builds \<open>albums\<close>; \<open>None\<close> when \<open>album['artists'][0]\<close> raises\<close>
  "display_albums [] = Some []"
| "display_albums (item # items) =
     (if item_total_tracks item > 0 then
        (case item_artists item of
           [] \<Rightarrow> None
         | first_artist # _ \<Rightarrow>
             (case display_albums items of
                None \<Rightarrow> None
              | Some shown \<Rightarrow>
                  Some (\<lparr>release_date = Some (item_release_date item),
                         shown_id = item_id item, shown_name = item_name item,
                         shown_artist = first_artist,
                         shown_image =
                           (case item_images item of [] \<Rightarrow> None | url # _ \<Rightarrow> Some url),
                         shown_total_tracks = item_total_tracks item,
                         shown_spotify_url = item_spotify_url item,
                         shown_album_type =
                           (case item_album_type item of None \<Rightarrow> ''album'' | Some t \<Rightarrow> t)\<rparr>
                        # shown)))
      else display_albums items)"

fun fetch_features :: "(string \<Rightarrow> track option outcome) \<Rightarrow> string list \<Rightarrow> track list option" where
  \<comment> \<open>the loop over \<open>top_track_ids\<close>: a \<open>SpotifyException\<close> skips the track, any other
     exception leaves the handler (\<open>None\<close>)\<close>
  "fetch_features audio_features_of [] = Some []"
| "fetch_features audio_features_of (tid # tids) =
     (case audio_features_of tid of
        Raises_Exception \<Rightarrow> None
      | Raises_SpotifyException \<Rightarrow> fetch_features audio_features_of tids
      | Returns None \<Rightarrow> fetch_features audio_features_of tids
      | Returns (Some features) \<Rightarrow>
          (case fetch_features audio_features_of tids of
             None \<Rightarrow> None
           | Some rest \<Rightarrow> Some (features # rest)))"

text \<open>
  \<open>lookup\<close> is the handler from \<open>sp.search\<close> on (lines 1085 to 1182), with the catalog
  errors as the \<open>except\<close> branches answer them. It writes \<open>music_insights_cache\<close> only.
\<close>

definition lookup ::
  "environment \<Rightarrow> catalog \<Rightarrow> string \<Rightarrow> (string \<rightharpoonup> cache_entry)
     \<Rightarrow> (string \<rightharpoonup> cache_entry) \<times> (nat \<times> search_body)" where
  \<open>lookup env sp q cache =
     (let service_error = (502, Search_Error ''Music service error. Please try again.'');
          internal_error = (500, Search_Error ''Internal server error'')
      in case sp_search sp q of
           Raises_SpotifyException \<Rightarrow> (cache, service_error)
         | Raises_Exception \<Rightarrow> (cache, internal_error)
         | Returns [] \<Rightarrow> (cache, (404, Search_Error ''No artists found''))
         | Returns (artist # _) \<Rightarrow>
             let aid = found_id artist; name = found_name artist
             in (case sp_artist_albums sp aid of
                   Raises_SpotifyException \<Rightarrow> (cache, service_error)
                 | Raises_Exception \<Rightarrow> (cache, internal_error)
                 | Returns items \<Rightarrow>
                     (case display_albums items of
                        None \<Rightarrow> (cache, internal_error)
                      | Some albums \<Rightarrow>
                          (case sp_artist_top_tracks sp aid of
                             Raises_SpotifyException \<Rightarrow> (cache, service_error)
                           | Raises_Exception \<Rightarrow> (cache, internal_error)
                           | Returns tracks \<Rightarrow>
                               let top = filter (\<lambda>t. truthy (track_id t)) (take 20 tracks);
                                   top_track_ids = map (\<lambda>t. text_of (track_id t)) top
                               in (case fetch_features (sp_audio_features sp) top_track_ids of
                                     None \<Rightarrow> (cache, internal_error)
                                   | Some fetched \<Rightarrow>
                                       let all_audio_features =
                                             (if fetched = [] then map track_metadata top
                                              else fetched);
                                           artist_genres = found_genres artist;
                                           music_analysis =
                                             analyze_audio_features (env_to_int env) (env_fmul env)
                                               (env_analysis_now env) all_audio_features
                                               artist_genres albums (Some name);
                                           insights =
                                             generate_discovery_insights (env_fmul env)
                                               (env_randint env) name artist_genres music_analysis;
                                           cache_key = env_md5 env (aid @ ''_'' @ env_today env);
                                           cache1 =
                                             cache(cache_key \<mapsto>
                                               \<lparr>cached_analysis = music_analysis,
                                                cached_insights = insights,
                                                cached_timestamp = env_cache_now env\<rparr>);
                                           response_data =
                                             \<lparr>result_artist =
                                                \<lparr>block_id = aid, block_name = name,
                                                 block_title = get_artist_title name artist_genres,
                                                 block_genres = artist_genres,
                                                 block_primary_genre =
                                                   (case artist_genres of
                                                      [] \<Rightarrow> ''Unknown'' | g # _ \<Rightarrow> g),
                                                 block_followers = found_followers artist,
                                                 block_popularity = found_popularity artist,
                                                 block_image =
                                                   (case found_images artist of
                                                      [] \<Rightarrow> None | url # _ \<Rightarrow> Some url)\<rparr>,
                                              result_albums = albums,
                                              result_music_analysis = music_analysis,
                                              result_discovery_insights = insights,
                                              result_total = length albums,
                                              result_timestamp = env_reply_now env\<rparr>
                                       in (cache1, (200, Search_Result response_data)))))))\<close>

definition search_albums ::
  "environment \<Rightarrow> catalog option \<Rightarrow> search_request payload \<Rightarrow> cache_entry globals
     \<Rightarrow> cache_entry globals \<times> (nat \<times> search_body)" where
  \<open>search_albums env sp data g =
     (case sp of
        None \<Rightarrow> (g, (503, Search_Error ''Spotify service unavailable''))
      | Some client \<Rightarrow>
          (case data of
             No_Json \<Rightarrow> (g, (500, Search_Error ''Internal server error''))
           | Falsy_Json \<Rightarrow> (g, (400, Search_Error ''Invalid request data''))
           | Other_Json \<Rightarrow> (g, (500, Search_Error ''Internal server error''))
           | Object d \<Rightarrow>
               (case query_text (request_query d) of
                  None \<Rightarrow> (g, (500, Search_Error ''Internal server error''))
                | Some text \<Rightarrow>
                    let q = strip text
                    in if q = [] then (g, (400, Search_Error ''Search query is required''))
                       else if length q > 100
                         then (g, (400, Search_Error ''Search query too long''))
                       else
                         let g1 = g\<lparr>search_analytics :=
                                      increment (search_analytics g) (lower q)\<rparr>;
                             looked = lookup env client q (music_insights_cache g1)
                         in (g1\<lparr>music_insights_cache := fst looked\<rparr>, snd looked))))\<close>

definition search_endpoint ::
  "environment \<Rightarrow> catalog option \<Rightarrow> search_request payload \<Rightarrow> string \<Rightarrow> real
     \<Rightarrow> cache_entry globals \<Rightarrow> cache_entry globals \<times> (nat \<times> search_body) gated" where
  \<comment> \<open>the handler under \<open>@rate_limit(max_requests=30, window=3600)\<close>\<close>
  "search_endpoint env sp data = rate_limit 30 3600 (search_albums env sp data)"

definition validated_query :: "catalog option \<Rightarrow> search_request payload \<Rightarrow> string option" where
  \<comment> \<open>The query with which a request passes the handler's checks (lines 1068 to 1080):
     the client exists, the body is a non-empty object, its query is a string (or
     missing) that is non-empty after \<open>strip\<close> and at most 100 characters long.
     \<open>None\<close> for a request that the handler answers before line 1082.\<close>
  "validated_query sp data =
     (case sp of
        None \<Rightarrow> None
      | Some client \<Rightarrow>
          (case data of
             Object d \<Rightarrow>
               (case query_text (request_query d) of
                  None \<Rightarrow> None
                | Some text \<Rightarrow>
                    if strip text \<noteq> [] \<and> length (strip text) \<le> 100 then Some (strip text)
                    else None)
           | _ \<Rightarrow> None))"






definition ids_agree :: "user_preferences \<Rightarrow> bool" where
  \<comment> \<open>the id set and the data list name the same artists\<close>
  "ids_agree p = (liked_artists p = fset_of_list (map artist_id (liked_artists_data p)))"

definition hashable_call :: "operation \<Rightarrow> bool" where
  \<comment> \<open>the artist id of the call, if it carries one, can be hashed\<close>
  "hashable_call op =
     (case op of
        Heart (Object d) now_iso \<Rightarrow> hashable (heart_artist_id d)
      | Unlike (Object d) now_iso \<Rightarrow> hashable (unlike_artist_id d)
      | _ \<Rightarrow> True)"

section \<open>Example data\<close>

definition example_save :: save_request where
  "example_save =
     \<lparr>save_album_id = Some ''A1'', save_album_name = Some ''Album One'',
      save_artist_name = Some ''Artist'', save_artist_id = Some ''R1'',
      save_release_date = Some ''2020-01-01'', save_image = None,
      save_total_tracks = Some 10\<rparr>"

definition example_heart :: heart_request where
  "example_heart =
     \<lparr>heart_artist_id = JStr ''A1'', heart_artist_name = Some ''Artist One'',
      heart_genres = Some (JArr [JStr ''Pop'', JStr ''Rock'']), heart_image = None\<rparr>"

definition example_unhashable :: heart_request where
  "example_unhashable =
     \<lparr>heart_artist_id = JArr [JStr ''A1''], heart_artist_name = Some ''Artist One'',
      heart_genres = None, heart_image = None\<rparr>"

definition example_env :: environment where
  "example_env =
     \<lparr>env_to_int = (\<lambda>_. None), env_fmul = (\<lambda>x c. x * c), env_randint = (\<lambda>a b. b),
      env_md5 = (\<lambda>s. s), env_analysis_now = ''2024-01-01T00:00:00'',
      env_today = ''2024-01-01'', env_cache_now = ''2024-01-01T00:00:01'',
      env_reply_now = ''2024-01-01T00:00:02''\<rparr>"

definition failing_catalog :: catalog where
  "failing_catalog =
     \<lparr>sp_search = (\<lambda>_. Raises_SpotifyException),
      sp_artist_albums = (\<lambda>_. Raises_SpotifyException),
      sp_artist_top_tracks = (\<lambda>_. Raises_SpotifyException),
      sp_audio_features = (\<lambda>_. Raises_SpotifyException)\<rparr>"




definition adele_request :: "search_request payload" where
  "adele_request = Object \<lparr>request_query = Some (JStr ''  Adele '')\<rparr>"

section \<open>Properties of the classifier\<close>

lemma lower_taylor_swift: "lower ''Taylor Swift'' = ''taylor swift''"
  by code_simp

text \<open>
  C4. Whatever the genre string, the average popularity, the explicit ratio and the track
  durations are, classifying the artist name "Taylor Swift" gives the mood
  "Storytelling Mastermind" and the complexity 85, which is the persona entry itself:
  the artist-name tier answers and the genre tier is not consulted.
\<close>

theorem taylor_swift_persona:
  \<open>mood (analyze_genre_characteristics genre_str avg_popularity explicit_ratio durations
       (Some ''Taylor Swift'')) = ''Storytelling Mastermind''
   \<and> complexity (analyze_genre_characteristics genre_str avg_popularity explicit_ratio durations
       (Some ''Taylor Swift'')) = 85
   \<and> get_artist_persona (lower ''Taylor Swift'') avg_popularity explicit_ratio
       = Some (analyze_genre_characteristics genre_str avg_popularity explicit_ratio durations
           (Some ''Taylor Swift''))\<close>
  by (simp add: analyze_genre_characteristics_def lower_taylor_swift get_artist_persona_def)

section \<open>Properties of the rate limiter\<close>

lemma rate_limit_idle_passed:
  assumes "snd (rate_limit m w idle ip now g) = Passed u"
  shows "timestamps_of (rate_limit_tracker (fst (rate_limit m w idle ip now g))) ip
         = filter (\<lambda>t. now - t < w) (timestamps_of (rate_limit_tracker g) ip) @ [now]"
  using assms
  by (auto simp: rate_limit_def idle_def Let_def timestamps_of_def split: list.splits if_splits)

lemma requests_Cons:
  "requests m w ip (now # ts) g =
     (fst (requests m w ip ts (fst (rate_limit m w idle ip now g))),
      snd (rate_limit m w idle ip now g) # snd (requests m w ip ts (fst (rate_limit m w idle ip now g))))"
  by (simp add: split_beta Let_def)

lemma requests_keep:
  fixes w :: real
  assumes "snd (requests m w ip ts g) = map (\<lambda>_. Passed ()) ts"
    and "\<forall>t\<in>set ts. t \<le> b \<and> b - t < w"
  shows "timestamps_of (rate_limit_tracker (fst (requests m w ip ts g))) ip
         = filter (\<lambda>x. \<forall>t\<in>set ts. t - x < w) (timestamps_of (rate_limit_tracker g) ip) @ ts"
  using assms
proof (induction ts arbitrary: g)
  case Nil
  then show ?case by simp
next
  case (Cons now ts)
  let ?g1 = "fst (rate_limit m w idle ip now g)"
  from Cons.prems(1) have p1: "snd (rate_limit m w idle ip now g) = Passed ()"
    and rest: "snd (requests m w ip ts ?g1) = map (\<lambda>_. Passed ()) ts"
    by (simp_all add: requests_Cons del: requests.simps(2))
  have t1: "timestamps_of (rate_limit_tracker ?g1) ip
            = filter (\<lambda>t. now - t < w) (timestamps_of (rate_limit_tracker g) ip) @ [now]"
    by (rule rate_limit_idle_passed [OF p1])
  from Cons.prems(2) have b: "\<forall>t\<in>set ts. t \<le> b \<and> b - t < w" and bn: "b - now < w"
    by simp_all
  then have k: "\<forall>t\<in>set ts. t - now < w" by fastforce
  have ih: "timestamps_of (rate_limit_tracker (fst (requests m w ip ts ?g1))) ip
            = filter (\<lambda>x. \<forall>t\<in>set ts. t - x < w) (timestamps_of (rate_limit_tracker ?g1) ip) @ ts"
    by (rule Cons.IH [OF rest b])
  have "fst (requests m w ip (now # ts) g) = fst (requests m w ip ts ?g1)"
    by (simp add: requests_Cons del: requests.simps(2))
  then show ?case
    using ih t1 k by simp
qed

lemma kept_nonempty_positive:
  fixes w :: real
  assumes "kept = filter (\<lambda>t. now - t < w) xs" and "kept \<noteq> []"
  shows "0 < w - (now - hd kept)"
proof -
  from assms(2) have "hd kept \<in> set kept" by simp
  then have "now - hd kept < w" unfolding assms(1) by simp
  then show ?thesis by linarith
qed

lemma sorted_filter_hd_Min:
  assumes "sorted xs" and "filter P xs \<noteq> []"
  shows "hd (filter P xs) = Min (set (filter P xs))"
proof -
  have s: "sorted (filter P xs)" using assms(1) by (rule sorted_wrt_filter)
  obtain y ys where e: "filter P xs = y # ys" using assms(2) by (cases "filter P xs") auto
  with s have "\<forall>z\<in>set ys. y \<le> z" by simp
  then have "Min (set (y # ys)) = y"
    by (intro Min_eqI) auto
  with e show ?thesis by simp
qed

lemma rejected_after_max:
  fixes g0 :: "'e globals" and f :: "'e globals \<Rightarrow> 'e globals \<times> 'r"
  assumes "1 \<le> max_requests" and len: "length ts = nat max_requests"
    and win: "\<forall>t\<in>set ts. t \<le> now \<and> now - t < window"
    and adm: "snd (requests max_requests window client_ip ts g0) = map (\<lambda>_. Passed ()) ts"
  shows "\<exists>r. snd (rate_limit max_requests window f client_ip now
                  (fst (requests max_requests window client_ip ts g0))) = Rejected r \<and> 0 < r"
proof -
  let ?g = "fst (requests max_requests window client_ip ts g0)"
  define kept where "kept = filter (\<lambda>t. now - t < window)
                      (timestamps_of (rate_limit_tracker ?g) client_ip)"
  have tr: "timestamps_of (rate_limit_tracker ?g) client_ip
            = filter (\<lambda>x. \<forall>t\<in>set ts. t - x < window)
                (timestamps_of (rate_limit_tracker g0) client_ip) @ ts"
    by (rule requests_keep [OF adm win])
  from win have "filter (\<lambda>t. now - t < window) ts = ts" by simp
  with tr have "length ts \<le> length kept" by (simp add: kept_def)
  with len assms(1) have full: "max_requests \<le> int (length kept)" and kne: "kept \<noteq> []"
    by auto
  then obtain y ys where e: "kept = y # ys" by (cases kept) auto
  have r: "snd (rate_limit max_requests window f client_ip now ?g)
           = Rejected (window - (now - hd kept))"
    using full e unfolding rate_limit_def Let_def kept_def [symmetric] by simp
  have p: "0 < window - (now - hd kept)"
    using kept_def kne by (rule kept_nonempty_positive)
  from r p show ?thesis by blast
qed

text \<open>
  C1. With at least one request allowed per window (\<open>1 \<le> max_requests\<close>), a call keeps of
  the client's timestamps exactly those \<open>t\<close> with \<open>now - t < window\<close>. When the kept count
  reaches \<open>max_requests\<close> the call is rejected with
  \<open>retry_after = window - (now - first kept timestamp)\<close>, which is positive, and the first
  kept timestamp is the oldest one when the client's list is in clock order; otherwise
  \<open>now\<close> is appended and the handler runs. Hence, after \<open>max_requests\<close> admitted requests
  at clock readings \<open>ts\<close> that are not after \<open>now\<close> and lie less than \<open>window\<close> before it,
  the next request of the same client is rejected with a positive \<open>retry_after\<close>.
\<close>

theorem rate_limit_admission:
  fixes g g0 :: "'e globals" and f :: "'e globals \<Rightarrow> 'e globals \<times> 'r"
  assumes "1 \<le> max_requests"
  shows "(let kept = filter (\<lambda>t. now - t < window)
                      (timestamps_of (rate_limit_tracker g) client_ip);
              g1 = g\<lparr>rate_limit_tracker := (rate_limit_tracker g)(client_ip \<mapsto> kept)\<rparr>;
              g2 = g\<lparr>rate_limit_tracker := (rate_limit_tracker g)(client_ip \<mapsto> kept @ [now])\<rparr>
          in (max_requests \<le> int (length kept) \<longrightarrow>
                rate_limit max_requests window f client_ip now g
                  = (g1, Rejected (window - (now - hd kept)))
                \<and> 0 < window - (now - hd kept)
                \<and> (sorted (timestamps_of (rate_limit_tracker g) client_ip)
                     \<longrightarrow> hd kept = Min (set kept)))
           \<and> (int (length kept) < max_requests \<longrightarrow>
                rate_limit max_requests window f client_ip now g
                  = (fst (f g2), Passed (snd (f g2)))))
     \<and> (length ts = nat max_requests \<and> (\<forall>t\<in>set ts. t \<le> now \<and> now - t < window)
          \<and> snd (requests max_requests window client_ip ts g0) = map (\<lambda>_. Passed ()) ts
        \<longrightarrow> (\<exists>r. snd (rate_limit max_requests window f client_ip now
                         (fst (requests max_requests window client_ip ts g0))) = Rejected r
                  \<and> 0 < r))"
proof (intro conjI)
  define kept where "kept = filter (\<lambda>t. now - t < window)
                      (timestamps_of (rate_limit_tracker g) client_ip)"
  have a: "rate_limit max_requests window f client_ip now g
            = (g\<lparr>rate_limit_tracker := (rate_limit_tracker g)(client_ip \<mapsto> kept)\<rparr>,
               Rejected (window - (now - hd kept)))
           \<and> 0 < window - (now - hd kept)
           \<and> (sorted (timestamps_of (rate_limit_tracker g) client_ip)
                 \<longrightarrow> hd kept = Min (set kept))"
    if full: "max_requests \<le> int (length kept)"
  proof -
    from full assms have ne: "kept \<noteq> []" by auto
    then obtain y ys where e: "kept = y # ys" by (cases kept) auto
    have r: "rate_limit max_requests window f client_ip now g
            = (g\<lparr>rate_limit_tracker := (rate_limit_tracker g)(client_ip \<mapsto> kept)\<rparr>,
               Rejected (window - (now - hd kept)))"
      using full e unfolding rate_limit_def Let_def kept_def [symmetric] by simp
    have p: "0 < window - (now - hd kept)"
      using kept_def ne by (rule kept_nonempty_positive)
    have m: "hd kept = Min (set kept)"
      if "sorted (timestamps_of (rate_limit_tracker g) client_ip)"
      using that ne unfolding kept_def by (rule sorted_filter_hd_Min)
    from r p m show ?thesis by blast
  qed
  have b: "rate_limit max_requests window f client_ip now g
            = (fst (f (g\<lparr>rate_limit_tracker := (rate_limit_tracker g)(client_ip \<mapsto> kept @ [now])\<rparr>)),
               Passed (snd (f (g\<lparr>rate_limit_tracker := (rate_limit_tracker g)(client_ip \<mapsto> kept @ [now])\<rparr>))))"
    if room: "int (length kept) < max_requests"
    using room unfolding rate_limit_def Let_def kept_def [symmetric] by simp
  from a b show "let kept = filter (\<lambda>t. now - t < window)
                      (timestamps_of (rate_limit_tracker g) client_ip);
              g1 = g\<lparr>rate_limit_tracker := (rate_limit_tracker g)(client_ip \<mapsto> kept)\<rparr>;
              g2 = g\<lparr>rate_limit_tracker := (rate_limit_tracker g)(client_ip \<mapsto> kept @ [now])\<rparr>
          in (max_requests \<le> int (length kept) \<longrightarrow>
                rate_limit max_requests window f client_ip now g
                  = (g1, Rejected (window - (now - hd kept)))
                \<and> 0 < window - (now - hd kept)
                \<and> (sorted (timestamps_of (rate_limit_tracker g) client_ip)
                     \<longrightarrow> hd kept = Min (set kept)))
           \<and> (int (length kept) < max_requests \<longrightarrow>
                rate_limit max_requests window f client_ip now g
                  = (fst (f g2), Passed (snd (f g2))))"
    unfolding Let_def kept_def by blast
next
  show "length ts = nat max_requests \<and> (\<forall>t\<in>set ts. t \<le> now \<and> now - t < window)
          \<and> snd (requests max_requests window client_ip ts g0) = map (\<lambda>_. Passed ()) ts
        \<longrightarrow> (\<exists>r. snd (rate_limit max_requests window f client_ip now
                         (fst (requests max_requests window client_ip ts g0))) = Rejected r
                  \<and> 0 < r)"
  proof (intro impI, elim conjE)
    assume len: "length ts = nat max_requests"
      and win: "\<forall>t\<in>set ts. t \<le> now \<and> now - t < window"
      and adm: "snd (requests max_requests window client_ip ts g0) = map (\<lambda>_. Passed ()) ts"
    show "\<exists>r. snd (rate_limit max_requests window f client_ip now
                   (fst (requests max_requests window client_ip ts g0))) = Rejected r \<and> 0 < r"
      using assms len win adm by (rule rejected_after_max)
  qed
qed

text \<open>The theorem at two requests per hour: requests at 0 and 1 are admitted, the one at
  2 is rejected with \<open>retry_after = 3598\<close>.\<close>

theorem rate_limit_admission_witness:
  "(1::int) \<le> 2
   \<and> length [0, 1 :: real] = nat 2
   \<and> list_all (\<lambda>t. t \<le> 2 \<and> 2 - t < 3600) [0, 1 :: real]
   \<and> snd (requests 2 3600 ''10.0.0.1'' [0, 1] (initial_globals :: unit globals))
       = [Passed (), Passed ()]
   \<and> timestamps_of (rate_limit_tracker
         (fst (requests 2 3600 ''10.0.0.1'' [0, 1] (initial_globals :: unit globals))))
         ''10.0.0.1'' = [0, 1]
   \<and> rate_limit 2 3600 idle ''10.0.0.1'' 2
         (fst (requests 2 3600 ''10.0.0.1'' [0, 1] (initial_globals :: unit globals)))
       = (initial_globals\<lparr>rate_limit_tracker := [''10.0.0.1'' \<mapsto> [0, 1]]\<rparr>, Rejected 3598)"
  using rate_limit_admission [where max_requests = 2 and now = 2 and window = 3600
      and g = "fst (requests 2 3600 ''10.0.0.1'' [0, 1] (initial_globals :: unit globals))"
      and client_ip = "''10.0.0.1''"
      and ts = "[0, 1]" and g0 = "initial_globals :: unit globals" and f = idle]
  by (simp add: rate_limit_def idle_def initial_globals_def timestamps_of_def Let_def)

text \<open>With \<open>max_requests = 0\<close> and a client without timestamps the kept count (0) reaches the
  maximum, but the call does not reject: reading the first timestamp raises.\<close>

theorem rate_limit_zero_max_counterexample:
  "int (length (filter (\<lambda>t. 100 - t < 3600)
          (timestamps_of (rate_limit_tracker (initial_globals :: unit globals)) ''10.0.0.1''))) \<ge> 0
   \<and> snd (rate_limit 0 3600 idle ''10.0.0.1'' 100 (initial_globals :: unit globals)) = Index_Error
   \<and> (\<forall>r. snd (rate_limit 0 3600 idle ''10.0.0.1'' 100 (initial_globals :: unit globals))
          \<noteq> Rejected r)"
  by (simp add: rate_limit_def initial_globals_def timestamps_of_def)

section \<open>The two definitions of the genre routine\<close>

lemma genre_definitions_agree:
  "get_genre_based_analysis_shadowed = get_genre_based_analysis"
  by (intro ext) (simp only: get_genre_based_analysis_shadowed_def get_genre_based_analysis_def)

text \<open>
  C7. The class body defines the genre routine twice and the second definition replaces
  the first. The two definitions give the same result on every input (genre string,
  average popularity, explicit ratio, artist name): neither is richer than the other.
\<close>

theorem genre_routines_equal:
  "get_genre_based_analysis_shadowed genre_str avg_popularity explicit_ratio name
   = get_genre_based_analysis genre_str avg_popularity explicit_ratio name"
  by (simp only: genre_definitions_agree)

text \<open>No input tells the replaced definition from the live one.\<close>

theorem genre_routines_diverge_counterexample:
  "\<not> (\<exists>genre_str avg_popularity explicit_ratio name.
         get_genre_based_analysis_shadowed genre_str avg_popularity explicit_ratio name
         \<noteq> get_genre_based_analysis genre_str avg_popularity explicit_ratio name)"
  by (simp only: genre_definitions_agree) simp

section \<open>Properties of the aggregate statistics\<close>

text \<open>On the empty track list the result is the empty dictionary: there is no result that
  carries the four statistics with value 0.\<close>

theorem summarize_empty_counterexample:
  "\<not> (\<exists>a. analyze_audio_features (\<lambda>_. None) (\<lambda>x c. x * c) ''2024-01-01T00:00:00'' [] [] ([] :: album list) None = Some a
          \<and> af_avg_popularity (audio_features a) = 0
          \<and> af_avg_duration_ms (audio_features a) = 0
          \<and> af_explicit_ratio (audio_features a) = 0
          \<and> track_count a = 0)"
  by (simp add: analyze_audio_features_def)

lemma map_filter_all_None: "(\<forall>x\<in>set xs. f x = None) \<Longrightarrow> List.map_filter f xs = []"
  by (induction xs) (simp_all add: List.map_filter_simps)

text \<open>
  C2. \<open>analyze_audio_features\<close> on an empty track list returns the empty result
  (no statistics at all). The zero values belong to non-empty lists: when no track of a
  non-empty list carries a popularity or a duration and none is explicit, the averages
  and the explicit ratio are 0 and the track count is the length of the list.
\<close>

theorem summarize_empty:
  "analyze_audio_features to_int fmul now_iso [] gs albums name = None
   \<and> (tracks \<noteq> []
        \<and> (\<forall>t\<in>set tracks. popularity t = None \<and> duration_ms t = None \<and> explicit t \<noteq> Some True)
      \<longrightarrow> (\<exists>a. analyze_audio_features to_int fmul now_iso tracks gs albums name = Some a
               \<and> af_avg_popularity (audio_features a) = 0
               \<and> af_avg_duration_ms (audio_features a) = 0
               \<and> af_explicit_ratio (audio_features a) = 0
               \<and> track_count a = length tracks \<and> track_count a \<noteq> 0))"
proof (intro conjI impI)
  show "analyze_audio_features to_int fmul now_iso [] gs albums name = None"
    by (simp add: analyze_audio_features_def)
next
  assume h: "tracks \<noteq> []
        \<and> (\<forall>t\<in>set tracks. popularity t = None \<and> duration_ms t = None \<and> explicit t \<noteq> Some True)"
  then have p: "List.map_filter popularity tracks = []"
    and d: "List.map_filter duration_ms tracks = []"
    and e: "filter (\<lambda>t. explicit t = Some True) tracks = []"
    by (simp_all add: map_filter_all_None filter_empty_conv)
  from h have ne: "tracks \<noteq> []" by simp
  show "\<exists>a. analyze_audio_features to_int fmul now_iso tracks gs albums name = Some a
               \<and> af_avg_popularity (audio_features a) = 0
               \<and> af_avg_duration_ms (audio_features a) = 0
               \<and> af_explicit_ratio (audio_features a) = 0
               \<and> track_count a = length tracks \<and> track_count a \<noteq> 0"
    using ne by (simp add: analyze_audio_features_def Let_def p d e mean_def)
qed

text \<open>The theorem at a list of one track without popularity and duration.\<close>

theorem summarize_empty_witness:
  "[\<lparr>popularity = None, duration_ms = None, explicit = Some False\<rparr>] \<noteq> []
   \<and> list_all (\<lambda>t. popularity t = None \<and> duration_ms t = None \<and> explicit t \<noteq> Some True)
         [\<lparr>popularity = None, duration_ms = None, explicit = Some False\<rparr>]
   \<and> (\<exists>a. analyze_audio_features (\<lambda>_. None) (\<lambda>x c. x * c) ''2024-01-01T00:00:00''
              [\<lparr>popularity = None, duration_ms = None, explicit = Some False\<rparr>] []
              ([] :: album list) None = Some a
          \<and> af_avg_popularity (audio_features a) = 0
          \<and> af_avg_duration_ms (audio_features a) = 0
          \<and> af_explicit_ratio (audio_features a) = 0
          \<and> track_count a = 1)"
  using summarize_empty [where tracks = "[\<lparr>popularity = None, duration_ms = None, explicit = Some False\<rparr>]"
      and to_int = "\<lambda>_. None" and fmul = "\<lambda>x c. x * c" and now_iso = "''2024-01-01T00:00:00''" and gs = "[]"
      and albums = "[] :: album list" and name = None]
  by auto

section \<open>Properties of the collection store\<close>

lemma filter_absent:
  "k \<notin> f ` set xs \<Longrightarrow> filter (\<lambda>x. f x \<noteq> k) xs = xs"
  by (induction xs) auto

lemma find_absent:
  "k \<notin> f ` set xs \<Longrightarrow> find (\<lambda>x. f x = k) xs = None"
  by (induction xs) auto

lemma find_present:
  "k \<in> f ` set xs \<Longrightarrow> \<exists>x. find (\<lambda>x. f x = k) xs = Some x"
  by (induction xs) auto

text \<open>
  C3. When no saved album has the album id of the request, \<open>save_album\<close> followed by
  \<open>unsave_album\<close> for the same id leaves the whole store, the saved albums in particular,
  as it was before the two calls; when the request also carries an id and a name, both
  calls succeed and the album is in the collection between them.
\<close>

theorem save_then_unsave_restores:
  assumes "save_album_id d \<notin> album_id ` set (saved_albums p)"
  shows "fst (unsave_album (Object \<lparr>unsave_album_id = save_album_id d\<rparr>)
                (fst (save_album (Object d) now_iso p))) = p
         \<and> (truthy (save_album_id d) \<and> truthy (save_album_name d)
              \<longrightarrow> fst (snd (save_album (Object d) now_iso p)) = 200
                  \<and> saved_albums (fst (save_album (Object d) now_iso p)) \<noteq> saved_albums p
                  \<and> fst (snd (unsave_album (Object \<lparr>unsave_album_id = save_album_id d\<rparr>)
                                 (fst (save_album (Object d) now_iso p)))) = 200)"
  using assms
  by (simp add: save_album_def unsave_album_def Let_def find_absent filter_absent)

text \<open>The theorem at the empty collection.\<close>

theorem save_then_unsave_restores_witness:
  "save_album_id example_save \<notin> album_id ` set (saved_albums initial_preferences)
   \<and> fst (unsave_album (Object \<lparr>unsave_album_id = save_album_id example_save\<rparr>)
           (fst (save_album (Object example_save) ''2024-01-01T00:00:00'' initial_preferences)))
       = initial_preferences
   \<and> fst (snd (save_album (Object example_save) ''2024-01-01T00:00:00'' initial_preferences)) = 200"
  using save_then_unsave_restores [where d = example_save and p = initial_preferences
      and now_iso = "''2024-01-01T00:00:00''"]
  by (simp add: example_save_def initial_preferences_def truthy_def)

text \<open>When the album is already saved, the second \<open>save_album\<close> answers 409 and changes
  nothing, and \<open>unsave_album\<close> then removes the album: the collection is not what it was
  before the two calls.\<close>

theorem save_then_unsave_counterexample:
  "saved_albums
     (fst (unsave_album (Object \<lparr>unsave_album_id = Some ''A1''\<rparr>)
        (fst (save_album (Object example_save) ''2024-01-02T00:00:00''
           (fst (save_album (Object example_save) ''2024-01-01T00:00:00'' initial_preferences))))))
   \<noteq> saved_albums
       (fst (save_album (Object example_save) ''2024-01-01T00:00:00'' initial_preferences))
   \<and> snd (save_album (Object example_save) ''2024-01-02T00:00:00''
           (fst (save_album (Object example_save) ''2024-01-01T00:00:00'' initial_preferences)))
       = (409, Failure ''Album already saved'' (Some ''This album is already in your collection''))
   \<and> saved_albums
       (fst (unsave_album (Object \<lparr>unsave_album_id = Some ''A1''\<rparr>)
          (fst (save_album (Object example_save) ''2024-01-02T00:00:00''
             (fst (save_album (Object example_save) ''2024-01-01T00:00:00'' initial_preferences))))))
       = []"
  by (simp add: save_album_def unsave_album_def example_save_def initial_preferences_def
      truthy_def Let_def)

text \<open>
  C5. When the artist id of the request is the id of a liked artist, \<open>heart_artist\<close>
  leaves every store unchanged (the liked artists keep their number, no genre count and
  no history event is added). The reply is the 409 conflict when the request carries a
  truthy id and a non-empty name; without them it is the 400 validation error, which
  the handler checks first.
\<close>

theorem second_like_conflict:
  assumes "heart_artist_id d = aid" and "aid \<in> artist_id ` set (liked_artists_data p)"
  shows "fst (heart_artist (Object d) now_iso p) = p
         \<and> length (liked_artists_data (fst (heart_artist (Object d) now_iso p)))
             = length (liked_artists_data p)
         \<and> genre_preferences (fst (heart_artist (Object d) now_iso p)) = genre_preferences p
         \<and> listening_history (fst (heart_artist (Object d) now_iso p)) = listening_history p
         \<and> snd (heart_artist (Object d) now_iso p)
             = (if truthy_json aid \<and> truthy (heart_artist_name d)
                then (409, Failure ''Artist already liked''
                             (Some ''This artist is already in your favorites''))
                else (400, Error ''Artist ID and name required''))"
proof -
  from assms(2) obtain x where "find (\<lambda>a. artist_id a = aid) (liked_artists_data p) = Some x"
    using find_present by fastforce
  with assms(1) show ?thesis
    by (simp add: heart_artist_def Let_def)
qed

text \<open>Liking the artist \<open>A1\<close> twice: the second call answers 409 and one artist is liked.\<close>

theorem second_like_conflict_witness:
  "heart_artist_id example_heart = JStr ''A1''
   \<and> JStr ''A1'' \<in> artist_id ` set (liked_artists_data
         (fst (heart_artist (Object example_heart) ''2024-01-01T00:00:00'' initial_preferences)))
   \<and> snd (heart_artist (Object example_heart) ''2024-01-02T00:00:00''
           (fst (heart_artist (Object example_heart) ''2024-01-01T00:00:00'' initial_preferences)))
       = (409, Failure ''Artist already liked'' (Some ''This artist is already in your favorites''))
   \<and> length (liked_artists_data
         (fst (heart_artist (Object example_heart) ''2024-01-02T00:00:00''
            (fst (heart_artist (Object example_heart) ''2024-01-01T00:00:00''
               initial_preferences))))) = 1"
  using second_like_conflict [where d = example_heart and aid = "JStr ''A1''"
      and p = "fst (heart_artist (Object example_heart) ''2024-01-01T00:00:00'' initial_preferences)"
      and now_iso = "''2024-01-02T00:00:00''"]
  by (simp add: heart_artist_def example_heart_def initial_preferences_def truthy_def
      truthy_json_def hashable_def count_genres_def text_of_def Let_def)

text \<open>A second call for the liked artist \<open>A1\<close> with an empty name is answered 400, not 409.\<close>

theorem second_like_counterexample:
  "JStr ''A1'' \<in> artist_id ` set (liked_artists_data
         (fst (heart_artist (Object example_heart) ''2024-01-01T00:00:00'' initial_preferences)))
   \<and> snd (heart_artist (Object (example_heart\<lparr>heart_artist_name := Some []\<rparr>))
           ''2024-01-02T00:00:00''
           (fst (heart_artist (Object example_heart) ''2024-01-01T00:00:00'' initial_preferences)))
       = (400, Error ''Artist ID and name required'')"
  by (simp add: heart_artist_def example_heart_def initial_preferences_def truthy_def
      truthy_json_def hashable_def count_genres_def text_of_def Let_def)

text \<open>
  C6. \<open>unlike_artist\<close> never changes \<open>genre_preferences\<close>, whatever the request and the
  store are. For a truthy artist id that can be hashed (a non-empty string in
  particular) the call answers 404 when no liked artist has the id, and otherwise
  succeeds and removes the artist; for a truthy id that cannot be hashed the membership
  test raises and the call answers 500.
\<close>

theorem unlike_keeps_genre_preferences:
  "genre_preferences (fst (unlike_artist data now_iso p)) = genre_preferences p
   \<and> (unlike_artist_id d = aid \<and> truthy_json aid \<and> hashable aid
        \<and> aid \<notin> artist_id ` set (liked_artists_data p)
        \<longrightarrow> snd (unlike_artist (Object d) now_iso p)
              = (404, Failure ''Artist not found in liked collection'' None))
   \<and> (unlike_artist_id d = aid \<and> truthy_json aid \<and> hashable aid
        \<and> aid \<in> artist_id ` set (liked_artists_data p)
        \<longrightarrow> fst (snd (unlike_artist (Object d) now_iso p)) = 200
            \<and> aid \<notin> artist_id ` set (liked_artists_data (fst (unlike_artist (Object d) now_iso p))))
   \<and> (unlike_artist_id d = aid \<and> truthy_json aid \<and> \<not> hashable aid
        \<longrightarrow> snd (unlike_artist (Object d) now_iso p) = (500, Error ''Failed to unlike artist''))"
proof (intro conjI impI)
  show "genre_preferences (fst (unlike_artist data now_iso p)) = genre_preferences p"
    by (simp add: unlike_artist_def Let_def split: payload.split)
next
  assume "unlike_artist_id d = aid \<and> truthy_json aid \<and> hashable aid
        \<and> aid \<notin> artist_id ` set (liked_artists_data p)"
  then have i: "unlike_artist_id d = aid" and n: "truthy_json aid" and h: "hashable aid"
    and m: "aid \<notin> artist_id ` set (liked_artists_data p)"
    by simp_all
  have f: "filter (\<lambda>artist. artist_id artist \<noteq> aid) (liked_artists_data p) = liked_artists_data p"
    using m by (rule filter_absent)
  show "snd (unlike_artist (Object d) now_iso p)
          = (404, Failure ''Artist not found in liked collection'' None)"
    by (simp add: unlike_artist_def Let_def i n h f)
next
  assume a: "unlike_artist_id d = aid \<and> truthy_json aid \<and> hashable aid
        \<and> aid \<in> artist_id ` set (liked_artists_data p)"
  then have i: "unlike_artist_id d = aid" and n: "truthy_json aid" and h: "hashable aid"
    by simp_all
  from a obtain x where "x \<in> set (liked_artists_data p)" and "\<not> artist_id x \<noteq> aid" by auto
  then have "length (filter (\<lambda>artist. artist_id artist \<noteq> aid) (liked_artists_data p))
             < length (liked_artists_data p)"
    by (rule length_filter_less)
  then have l: "length (filter (\<lambda>artist. artist_id artist \<noteq> aid) (liked_artists_data p))
             \<noteq> length (liked_artists_data p)" by simp
  show "fst (snd (unlike_artist (Object d) now_iso p)) = 200"
    using l by (simp add: unlike_artist_def Let_def i n h)
  show "aid \<notin> artist_id ` set (liked_artists_data (fst (unlike_artist (Object d) now_iso p)))"
    using l by (auto simp: unlike_artist_def Let_def i n h)
next
  assume "unlike_artist_id d = aid \<and> truthy_json aid \<and> \<not> hashable aid"
  then show "snd (unlike_artist (Object d) now_iso p) = (500, Error ''Failed to unlike artist'')"
    by (simp add: unlike_artist_def Let_def)
qed

text \<open>Unliking the artist \<open>missing\<close> after \<open>A1\<close> was liked with two genres: the reply is
  404 and the genre counts stay.\<close>

theorem unlike_keeps_genre_preferences_witness:
  "unlike_artist_id \<lparr>unlike_artist_id = JStr ''missing'', unlike_artist_name = None\<rparr>
     = JStr ''missing''
   \<and> truthy_json (JStr ''missing'') \<and> hashable (JStr ''missing'')
   \<and> JStr ''missing'' \<notin> artist_id ` set (liked_artists_data
         (fst (heart_artist (Object example_heart) ''2024-01-01T00:00:00'' initial_preferences)))
   \<and> snd (unlike_artist (Object \<lparr>unlike_artist_id = JStr ''missing'', unlike_artist_name = None\<rparr>)
           ''2024-01-02T00:00:00''
           (fst (heart_artist (Object example_heart) ''2024-01-01T00:00:00'' initial_preferences)))
       = (404, Failure ''Artist not found in liked collection'' None)
   \<and> genre_preferences
         (fst (unlike_artist (Object \<lparr>unlike_artist_id = JStr ''missing'', unlike_artist_name = None\<rparr>)
            ''2024-01-02T00:00:00''
            (fst (heart_artist (Object example_heart) ''2024-01-01T00:00:00'' initial_preferences))))
       = genre_preferences
           (fst (heart_artist (Object example_heart) ''2024-01-01T00:00:00'' initial_preferences))"
  using unlike_keeps_genre_preferences
    [where d = "\<lparr>unlike_artist_id = JStr ''missing'', unlike_artist_name = None\<rparr>"
       and aid = "JStr ''missing''" and now_iso = "''2024-01-02T00:00:00''"
       and data = "Object \<lparr>unlike_artist_id = JStr ''missing'', unlike_artist_name = None\<rparr>"
       and p = "fst (heart_artist (Object example_heart) ''2024-01-01T00:00:00'' initial_preferences)"]
  by (simp add: heart_artist_def example_heart_def initial_preferences_def truthy_def
      truthy_json_def hashable_def count_genres_def text_of_def Let_def)

lemma fset_of_list_filter_out:
  "fset_of_list (map f (filter (\<lambda>x. f x \<noteq> k) xs)) = fset_of_list (map f xs) |-| {|k|}"
  by (induction xs) auto

lemma ids_agree_heart:
  assumes "ids_agree p" and "hashable_call (Heart data now_iso)"
  shows "ids_agree (fst (heart_artist data now_iso p))"
proof (cases data)
  case (Object d)
  with assms(2) have h: "hashable (heart_artist_id d)" by (simp add: hashable_call_def)
  from assms(1) show ?thesis
    unfolding Object
    by (auto simp: ids_agree_def heart_artist_def Let_def h split: option.splits)
qed (use assms(1) in \<open>simp_all add: heart_artist_def\<close>)

lemma unlike_artist_stores:
  assumes "hashable_call (Unlike data now_iso)"
  shows "fst (unlike_artist data now_iso p) = p
   \<or> (\<exists>aid. liked_artists_data (fst (unlike_artist data now_iso p))
             = filter (\<lambda>artist. artist_id artist \<noteq> aid) (liked_artists_data p)
           \<and> liked_artists (fst (unlike_artist data now_iso p)) = liked_artists p |-| {|aid|})"
proof (cases data)
  case (Object d)
  with assms have h: "hashable (unlike_artist_id d)" by (simp add: hashable_call_def)
  show ?thesis
  proof (cases "truthy_json (unlike_artist_id d)")
    case False
    with Object show ?thesis by (simp add: unlike_artist_def Let_def)
  next
    case True
    have m: "(if k |\<in>| A then A |-| {|k|} else A) = A |-| {|k|}" for k :: json and A
      by auto
    have "liked_artists_data (fst (unlike_artist data now_iso p))
             = filter (\<lambda>artist. artist_id artist \<noteq> unlike_artist_id d) (liked_artists_data p)
           \<and> liked_artists (fst (unlike_artist data now_iso p))
             = liked_artists p |-| {|unlike_artist_id d|}"
      using Object True h m [of "unlike_artist_id d" "liked_artists p"]
      by (simp add: unlike_artist_def Let_def)
    then show ?thesis by blast
  qed
qed (simp_all add: unlike_artist_def)

lemma ids_agree_unlike:
  assumes "ids_agree p" and "hashable_call (Unlike data now_iso)"
  shows "ids_agree (fst (unlike_artist data now_iso p))"
proof -
  from unlike_artist_stores [OF assms(2), of p] show ?thesis
  proof
    assume "fst (unlike_artist data now_iso p) = p"
    with assms(1) show ?thesis by simp
  next
    assume "\<exists>aid. liked_artists_data (fst (unlike_artist data now_iso p))
             = filter (\<lambda>artist. artist_id artist \<noteq> aid) (liked_artists_data p)
           \<and> liked_artists (fst (unlike_artist data now_iso p)) = liked_artists p |-| {|aid|}"
    then obtain aid where
      d: "liked_artists_data (fst (unlike_artist data now_iso p))
             = filter (\<lambda>artist. artist_id artist \<noteq> aid) (liked_artists_data p)"
      and l: "liked_artists (fst (unlike_artist data now_iso p)) = liked_artists p |-| {|aid|}"
      by blast
    from assms(1) have "liked_artists p = fset_of_list (map artist_id (liked_artists_data p))"
      by (simp only: ids_agree_def)
    then show ?thesis
      unfolding ids_agree_def d l by (simp only: fset_of_list_filter_out)
  qed
qed

lemma ids_agree_save: "ids_agree p \<Longrightarrow> ids_agree (fst (save_album data now_iso p))"
  by (auto simp: ids_agree_def save_album_def Let_def split: option.splits payload.splits)

lemma ids_agree_unsave: "ids_agree p \<Longrightarrow> ids_agree (fst (unsave_album data p))"
  by (auto simp: ids_agree_def unsave_album_def Let_def split: option.splits payload.splits)

lemma ids_agree_clear: "ids_agree (fst (clear_collection p))"
  by (simp add: ids_agree_def clear_collection_def)

lemma ids_agree_perform: "ids_agree p \<Longrightarrow> hashable_call op \<Longrightarrow> ids_agree (perform op p)"
  by (cases op)
    (simp_all add: ids_agree_heart ids_agree_unlike ids_agree_save ids_agree_unsave
      ids_agree_clear)

lemma ids_agree_fold:
  "ids_agree p \<Longrightarrow> list_all hashable_call ops \<Longrightarrow> ids_agree (fold perform ops p)"
  by (induction ops arbitrary: p) (simp_all add: ids_agree_perform)

lemma ids_agree_hashable_run:
  assumes "list_all hashable_call ops"
  shows "liked_artists (run ops) = fset_of_list (map artist_id (liked_artists_data (run ops)))"
proof -
  have "ids_agree initial_preferences"
    by (simp add: ids_agree_def initial_preferences_def)
  then have "ids_agree (run ops)"
    unfolding run_def using assms by (rule ids_agree_fold)
  then show ?thesis by (simp add: ids_agree_def)
qed

lemma unhashable_like:
  assumes "heart_artist_id d = aid" and "truthy_json aid" and "\<not> hashable aid"
    and "truthy (heart_artist_name d)"
    and "aid \<notin> artist_id ` set (liked_artists_data p)"
  shows "snd (heart_artist (Object d) now_iso p) = (500, Error ''Failed to save artist'')"
    and "map artist_id (liked_artists_data (fst (heart_artist (Object d) now_iso p)))
         = map artist_id (liked_artists_data p) @ [aid]"
    and "liked_artists (fst (heart_artist (Object d) now_iso p)) = liked_artists p"
  using assms(1-4) find_absent [OF assms(5)] by (simp_all add: heart_artist_def Let_def)

lemma unhashable_like_breaks_agreement:
  assumes "heart_artist_id d = aid" and "truthy_json aid" and "\<not> hashable aid"
    and "truthy (heart_artist_name d)"
    and "aid \<notin> artist_id ` set (liked_artists_data p)" and "ids_agree p"
  shows "\<not> ids_agree (fst (heart_artist (Object d) now_iso p))"
proof
  assume a: "ids_agree (fst (heart_artist (Object d) now_iso p))"
  have "aid |\<in>| fset_of_list (map artist_id (liked_artists_data p) @ [aid])" by simp
  then have "aid |\<in>| liked_artists p"
    using a unhashable_like(2,3) [OF assms(1-5), of now_iso]
    by (simp only: ids_agree_def)
  then have "aid \<in> artist_id ` set (liked_artists_data p)"
    using assms(6) by (simp add: ids_agree_def fset_of_list.rep_eq)
  with assms(5) show False by simp
qed

text \<open>
  C9. The set \<open>liked_artists\<close> and the ids of \<open>liked_artists_data\<close> do not always agree:
  \<open>heart_artist\<close> appends the record before it adds the id to the set, and the \<open>add\<close>
  raises for an id that cannot be hashed. After one such call on the store the module
  starts with, the reply is 500, the list holds the record and the set is empty.
\<close>

theorem liked_ids_out_of_step:
  "snd (heart_artist (Object example_unhashable) ''2024-01-01T00:00:00'' initial_preferences)
     = (500, Error ''Failed to save artist'')
   \<and> map artist_id (liked_artists_data
         (run [Heart (Object example_unhashable) ''2024-01-01T00:00:00'']))
     = [JArr [JStr ''A1'']]
   \<and> liked_artists (run [Heart (Object example_unhashable) ''2024-01-01T00:00:00'']) = {||}
   \<and> liked_artists (run [Heart (Object example_unhashable) ''2024-01-01T00:00:00''])
     \<noteq> fset_of_list (map artist_id (liked_artists_data
           (run [Heart (Object example_unhashable) ''2024-01-01T00:00:00''])))"
  by (auto simp: run_def heart_artist_def example_unhashable_def initial_preferences_def
      truthy_def truthy_json_def hashable_def text_of_def Let_def)

section \<open>Properties of the search handler\<close>

lemma strip_adele: "strip ''  Adele '' = ''Adele''"
  by code_simp

lemma lower_adele: "lower ''Adele'' = ''adele''"
  by code_simp

lemma search_albums_unvalidated:
  assumes "validated_query sp data = None"
  shows "fst (search_albums env sp data g) = g"
  using assms
  by (auto simp: search_albums_def validated_query_def Let_def
      split: option.splits payload.splits if_splits)

lemma search_albums_validated:
  assumes "validated_query (Some client) data = Some q"
  shows "search_albums env (Some client) data g
         = (g\<lparr>search_analytics := increment (search_analytics g) (lower q),
               music_insights_cache := fst (lookup env client q (music_insights_cache g))\<rparr>,
            snd (lookup env client q (music_insights_cache g)))"
  using assms
  by (auto simp: search_albums_def validated_query_def Let_def
      split: option.splits payload.splits if_splits)

lemma validated_needs_client: "validated_query sp data = Some q \<Longrightarrow> \<exists>client. sp = Some client"
  by (cases sp) (simp_all add: validated_query_def)

lemma search_albums_analytics:
  "search_analytics (fst (search_albums env sp data g))
   = (case validated_query sp data of
        None \<Rightarrow> search_analytics g
      | Some q \<Rightarrow> increment (search_analytics g) (lower q))"
proof (cases "validated_query sp data")
  case None
  then show ?thesis using search_albums_unvalidated [OF None, of env g] by simp
next
  case (Some q)
  then obtain client where c: "sp = Some client" using validated_needs_client by blast
  with Some show ?thesis using search_albums_validated [of client data q env g] by simp
qed

lemma rate_limit_store:
  "fst (rate_limit max_requests window f client_ip now g)
   = (case snd (rate_limit max_requests window f client_ip now g) of
        Passed r \<Rightarrow>
          fst (f (g\<lparr>rate_limit_tracker :=
                      (rate_limit_tracker g)(client_ip \<mapsto>
                        filter (\<lambda>t. now - t < window)
                          (timestamps_of (rate_limit_tracker g) client_ip) @ [now])\<rparr>))
      | _ \<Rightarrow>
          g\<lparr>rate_limit_tracker :=
               (rate_limit_tracker g)(client_ip \<mapsto>
                 filter (\<lambda>t. now - t < window)
                   (timestamps_of (rate_limit_tracker g) client_ip))\<rparr>)"
  by (simp add: rate_limit_def Let_def split: list.split)

lemma search_endpoint_analytics:
  "search_analytics (fst (search_endpoint env sp data client_ip now g))
   = (case snd (search_endpoint env sp data client_ip now g) of
        Passed r \<Rightarrow>
          (case validated_query sp data of
             None \<Rightarrow> search_analytics g
           | Some q \<Rightarrow> increment (search_analytics g) (lower q))
      | _ \<Rightarrow> search_analytics g)"
proof -
  let ?kept = "filter (\<lambda>t. now - t < 3600) (timestamps_of (rate_limit_tracker g) client_ip)"
  let ?g2 = "g\<lparr>rate_limit_tracker := (rate_limit_tracker g)(client_ip \<mapsto> ?kept @ [now])\<rparr>"
  have s: "search_analytics ?g2 = search_analytics g" by simp
  show ?thesis
  proof (cases "snd (search_endpoint env sp data client_ip now g)")
    case (Rejected x)
    then show ?thesis
      using rate_limit_store [of 30 3600 "search_albums env sp data" client_ip now g]
      by (simp add: search_endpoint_def)
  next
    case Index_Error
    then show ?thesis
      using rate_limit_store [of 30 3600 "search_albums env sp data" client_ip now g]
      by (simp add: search_endpoint_def)
  next
    case (Passed r)
    then have "fst (search_endpoint env sp data client_ip now g)
               = fst (search_albums env sp data ?g2)"
      using rate_limit_store [of 30 3600 "search_albums env sp data" client_ip now g]
      by (simp add: search_endpoint_def)
    then show ?thesis
      using Passed search_albums_analytics [of env sp data ?g2] s
      by (simp split: option.split)
  qed
qed

text \<open>
  C10. A search request passes input validation when the handler reaches its checks of
  the query and they succeed (\<open>validated_query\<close>). The count of the lowercased query is
  then incremented in the store on which the catalog lookup runs, and no other count
  changes, whatever the catalog answers: a catalog error (502, 500) and an empty artist
  list (404) leave the count incremented. A request that does not pass changes no store,
  and the decorated endpoint changes the counts only when the rate limiter lets the call
  pass.
\<close>

theorem search_counts_before_lookup:
  "search_analytics (fst (search_albums env sp data g))
     = (case validated_query sp data of
          None \<Rightarrow> search_analytics g
        | Some q \<Rightarrow> increment (search_analytics g) (lower q))
   \<and> (validated_query sp data = None \<longrightarrow> fst (search_albums env sp data g) = g)
   \<and> (validated_query (Some client) data = Some q
        \<longrightarrow> search_albums env (Some client) data g
              = (g\<lparr>search_analytics := increment (search_analytics g) (lower q),
                    music_insights_cache := fst (lookup env client q (music_insights_cache g))\<rparr>,
                 snd (lookup env client q (music_insights_cache g)))
            \<and> search_analytics (fst (search_albums env (Some client) data g)) (lower q)
              = Some (case search_analytics g (lower q) of None \<Rightarrow> 1 | Some n \<Rightarrow> n + 1))
   \<and> (sp_search client q = Raises_SpotifyException
        \<longrightarrow> lookup env client q cache
              = (cache, (502, Search_Error ''Music service error. Please try again.'')))
   \<and> (sp_search client q = Raises_Exception
        \<longrightarrow> lookup env client q cache = (cache, (500, Search_Error ''Internal server error'')))
   \<and> (sp_search client q = Returns []
        \<longrightarrow> lookup env client q cache = (cache, (404, Search_Error ''No artists found'')))
   \<and> search_analytics (fst (search_endpoint env sp data client_ip now g))
     = (case snd (search_endpoint env sp data client_ip now g) of
          Passed r \<Rightarrow>
            (case validated_query sp data of
               None \<Rightarrow> search_analytics g
             | Some q \<Rightarrow> increment (search_analytics g) (lower q))
        | _ \<Rightarrow> search_analytics g)"
proof (intro conjI impI)
  show "search_analytics (fst (search_albums env sp data g))
     = (case validated_query sp data of
          None \<Rightarrow> search_analytics g
        | Some q \<Rightarrow> increment (search_analytics g) (lower q))"
    by (rule search_albums_analytics)
next
  assume "validated_query sp data = None"
  then show "fst (search_albums env sp data g) = g"
    by (rule search_albums_unvalidated)
next
  assume v: "validated_query (Some client) data = Some q"
  then show e: "search_albums env (Some client) data g
              = (g\<lparr>search_analytics := increment (search_analytics g) (lower q),
                    music_insights_cache := fst (lookup env client q (music_insights_cache g))\<rparr>,
                 snd (lookup env client q (music_insights_cache g)))"
    by (rule search_albums_validated)
  show "search_analytics (fst (search_albums env (Some client) data g)) (lower q)
              = Some (case search_analytics g (lower q) of None \<Rightarrow> 1 | Some n \<Rightarrow> n + 1)"
    unfolding e by (simp add: increment_def)
next
  assume "sp_search client q = Raises_SpotifyException"
  then show "lookup env client q cache
              = (cache, (502, Search_Error ''Music service error. Please try again.''))"
    by (simp add: lookup_def)
next
  assume "sp_search client q = Raises_Exception"
  then show "lookup env client q cache = (cache, (500, Search_Error ''Internal server error''))"
    by (simp add: lookup_def)
next
  assume "sp_search client q = Returns []"
  then show "lookup env client q cache = (cache, (404, Search_Error ''No artists found''))"
    by (simp add: lookup_def)
next
  show "search_analytics (fst (search_endpoint env sp data client_ip now g))
     = (case snd (search_endpoint env sp data client_ip now g) of
          Passed r \<Rightarrow>
            (case validated_query sp data of
               None \<Rightarrow> search_analytics g
             | Some q \<Rightarrow> increment (search_analytics g) (lower q))
        | _ \<Rightarrow> search_analytics g)"
    by (rule search_endpoint_analytics)
qed

lemma validated_adele: "validated_query (Some client) adele_request = Some ''Adele''"
  by (simp add: validated_query_def adele_request_def query_text_def strip_adele)

lemma validated_without_client: "validated_query None data = None"
  by (simp add: validated_query_def)

text \<open>A search for \<open>Adele\<close> against a catalog that raises: the reply is 502 and the count of
  \<open>adele\<close> is 1; without a catalog client the store stays as it is.\<close>

theorem search_counts_before_lookup_witness:
  "validated_query (Some failing_catalog) adele_request = Some ''Adele''
   \<and> sp_search failing_catalog ''Adele'' = Raises_SpotifyException
   \<and> snd (search_albums example_env (Some failing_catalog) adele_request initial_globals)
       = (502, Search_Error ''Music service error. Please try again.'')
   \<and> search_analytics
       (fst (search_albums example_env (Some failing_catalog) adele_request initial_globals))
       ''adele'' = Some 1
   \<and> validated_query None adele_request = None
   \<and> fst (search_albums example_env None adele_request initial_globals) = initial_globals"
  using search_counts_before_lookup
    [where env = example_env and client = failing_catalog and data = adele_request
       and q = "''Adele''" and g = initial_globals and sp = None and cache = Map.empty
       and client_ip = "''10.0.0.1''" and now = 0]
  by (simp add: validated_adele validated_without_client lower_adele failing_catalog_def
      initial_globals_def lookup_def increment_def)

section \<open>Determinism of the classifier and the discoverability score\<close>

lemma durations_unread:
  "analyze_genre_characteristics genre_str avg_popularity explicit_ratio durations name
   = analyze_genre_characteristics genre_str avg_popularity explicit_ratio durations' name"
  by (simp add: analyze_genre_characteristics_def Let_def)

















end
